theory Spec2Isabelle
  imports Complex_Main
begin

section \<open>Numbers, time and collaborators\<close>

text \<open>
  The program is JavaScript. Its numbers are modelled as \<^typ>\<open>real\<close>: the comparisons,
  \<open>Math.min\<close>, \<open>Math.max\<close> and the additions the theorems below rest on are read without
  rounding, and without NaN or the infinities. \<open>getTimestamp()\<close> (the wall clock
  \<open>performance.now()\<close>) is an argument \<open>now\<close> of every function that reads it.
  \<open>audioManager.play\<close> only emits a sound and is left out. \<open>Math.random()\<close> is an
  argument \<open>rnd\<close>, the supply of the numbers it returns.
\<close>

section \<open>utils.js\<close>

text \<open>
  Every entity of the game carries the four fields \<open>x\<close>, \<open>y\<close>, \<open>width\<close>, \<open>height\<close>,
  and \<open>checkCollision\<close> reads only those, whatever object it is given. The record
  \<open>rect\<close> holds them (as \<open>pos_x\<close>, \<open>pos_y\<close>, \<open>width\<close>, \<open>height\<close>), every entity
  record extends it, and \<open>checkCollision\<close> takes any two extensions.
\<close>

record rect =
  pos_x :: real
  pos_y :: real
  width :: real
  height :: real

definition checkCollision :: "'a rect_scheme \<Rightarrow> 'b rect_scheme \<Rightarrow> bool" where
  "checkCollision rect1 rect2 =
     (pos_x rect1 < pos_x rect2 + width rect2 \<and>
      pos_x rect1 + width rect1 > pos_x rect2 \<and>
      pos_y rect1 < pos_y rect2 + height rect2 \<and>
      pos_y rect1 + height rect1 > pos_y rect2)"

definition clamp :: "real \<Rightarrow> real \<Rightarrow> real \<Rightarrow> real" where
  "clamp v lo hi = min (max v lo) hi"

definition lerp :: "real \<Rightarrow> real \<Rightarrow> real \<Rightarrow> real" where
  "lerp start end' factor = start + (end' - start) * factor"

definition distance :: "real \<Rightarrow> real \<Rightarrow> real \<Rightarrow> real \<Rightarrow> real" where
  "distance x1 y1 x2 y2 = sqrt ((x2 - x1)\<^sup>2 + (y2 - y1)\<^sup>2)"

definition random :: "real \<Rightarrow> real \<Rightarrow> real \<Rightarrow> real" where
  \<comment> \<open>\<open>Math.random() * (max - min) + min\<close>, the first argument being what \<open>Math.random()\<close> returned\<close>
  "random r lo hi = r * (hi - lo) + lo"

section \<open>Platform: the state\<close>

record particle =
  part_x :: real
  part_y :: real
  part_velocityX :: real
  part_velocityY :: real
  part_size :: real
  part_life :: real
  part_age :: real

record platform = rect +
  originalX :: real
  originalY :: real
  platformType :: string
  moveSpeed :: real
  moveDistance :: real
  moveDirection :: real
  moveAxis :: string
  crumbleTimer :: real
  crumbleDelay :: real
  isCrumbling :: bool
  isPlayerOn :: bool
  crumbleParticles :: "particle list"
  bounceForce :: real
  bounceActive :: bool
  bounceScale :: real
  bounceTimer :: real
  bounceDuration :: real

definition new_Platform :: "real \<Rightarrow> real \<Rightarrow> real \<Rightarrow> real \<Rightarrow> string \<Rightarrow> platform" where
  "new_Platform x0 y0 w h ty =
     \<lparr>pos_x = x0, pos_y = y0, width = w, height = h,
      originalX = x0, originalY = y0, platformType = ty,
      moveSpeed = 1, moveDistance = 100, moveDirection = 1, moveAxis = ''horizontal'',
      crumbleTimer = 0, crumbleDelay = 1000, isCrumbling = False, isPlayerOn = False,
      crumbleParticles = [],
      bounceForce = 20, bounceActive = False, bounceScale = 1, bounceTimer = 0,
      bounceDuration = 200\<rparr>"

definition providesCollision :: "platform \<Rightarrow> bool" where
  "providesCollision pf = (\<not> isCrumbling pf)"

section \<open>Player (player.js)\<close>

text \<open>
  \<open>Player\<close> and \<open>Enemy\<close> declare their physics, health and animation fields under the
  same names; the record \<open>entity\<close> holds those once, and both records extend it.
\<close>

record entity = rect +
  velocityX :: real
  velocityY :: real
  speed :: real
  gravity :: real
  maxFallSpeed :: real
  isGrounded :: bool
  health :: real
  maxHealth :: real
  animationFrame :: nat
  animationSpeed :: real
  animationTimer :: real
  currentAnimation :: string

record player = entity +
  jumpPower :: real
  friction :: real
  canDoubleJump :: bool
  hasDoubleJumped :: bool
  facing :: int
  invulnerable :: bool
  invulnerabilityTime :: real
  lastDamageTime :: real
  key_left :: bool
  key_right :: bool
  key_jump :: bool
  key_jumpPressed :: bool
  checkpointX :: real
  checkpointY :: real
  lastCheckpointHealth :: real

definition new_Player :: "real \<Rightarrow> real \<Rightarrow> player" where
  "new_Player x0 y0 =
     \<lparr>pos_x = x0, pos_y = y0, width = 32, height = 48,
      velocityX = 0, velocityY = 0, speed = 5, gravity = 0.8, maxFallSpeed = 15,
      isGrounded = False, health = 100, maxHealth = 100,
      animationFrame = 0, animationSpeed = 0.15, animationTimer = 0,
      currentAnimation = ''idle'',
      jumpPower = 15, friction = 0.85,
      canDoubleJump = False, hasDoubleJumped = False, facing = 1,
      invulnerable = False, invulnerabilityTime = 1000, lastDamageTime = 0,
      key_left = False, key_right = False, key_jump = False, key_jumpPressed = False,
      checkpointX = x0, checkpointY = y0, lastCheckpointHealth = 100\<rparr>"

definition jump :: "player \<Rightarrow> player" where
  "jump p = p\<lparr>velocityY := - jumpPower p, isGrounded := False\<rparr>"

definition handleInput :: "player \<Rightarrow> player" where
  "handleInput p0 =
     (let p1 = (if key_left p0
                then p0\<lparr>velocityX := velocityX p0 - speed p0 * 0.3, facing := - 1\<rparr> else p0);
          p2 = (if key_right p1
                then p1\<lparr>velocityX := velocityX p1 + speed p1 * 0.3, facing := 1\<rparr> else p1);
          p3 = (if key_jumpPressed p2 \<and> \<not> key_jump p2 then
                  (if isGrounded p2
                   then (jump p2)\<lparr>canDoubleJump := True, hasDoubleJumped := False\<rparr>
                   else if canDoubleJump p2 \<and> \<not> hasDoubleJumped p2
                   then (jump p2)\<lparr>hasDoubleJumped := True, canDoubleJump := False\<rparr>
                   else p2)
                else p2)
      in p3\<lparr>key_jump := key_jumpPressed p3\<rparr>)"

definition Player_updatePhysics :: "player \<Rightarrow> player" where
  "Player_updatePhysics p0 =
     (let p1 = (if \<not> isGrounded p0 then p0\<lparr>velocityY := velocityY p0 + gravity p0\<rparr> else p0);
          p2 = (if isGrounded p1 then p1\<lparr>velocityX := velocityX p1 * friction p1\<rparr>
                else p1\<lparr>velocityX := velocityX p1 * 0.98\<rparr>);
          p3 = p2\<lparr>velocityX := clamp (velocityX p2) (- speed p2) (speed p2)\<rparr>;
          p4 = p3\<lparr>velocityY := clamp (velocityY p3) (- jumpPower p3 * 1.2) (maxFallSpeed p3)\<rparr>
      in p4\<lparr>pos_x := pos_x p4 + velocityX p4, pos_y := pos_y p4 + velocityY p4\<rparr>)"

text \<open>The body of the loop of \<open>Player.handlePlatformCollisions\<close>, for one platform.\<close>

definition Player_collide :: "player \<Rightarrow> platform \<Rightarrow> player" where
  "Player_collide p pf =
     (if checkCollision p pf then
        (let overlapX = min (pos_x p + width p - pos_x pf) (pos_x pf + width pf - pos_x p);
             overlapY = min (pos_y p + height p - pos_y pf) (pos_y pf + height pf - pos_y p)
         in if overlapX < overlapY then
              (if pos_x p < pos_x pf
               then p\<lparr>pos_x := pos_x pf - width p, velocityX := 0\<rparr>
               else p\<lparr>pos_x := pos_x pf + width pf, velocityX := 0\<rparr>)
            else
              (if pos_y p < pos_y pf
               then p\<lparr>pos_y := pos_y pf - height p, velocityY := 0, isGrounded := True,
                      canDoubleJump := False, hasDoubleJumped := False\<rparr>
               else p\<lparr>pos_y := pos_y pf + height pf, velocityY := 0\<rparr>))
      else p)"

definition Player_handlePlatformCollisions :: "player \<Rightarrow> platform list \<Rightarrow> player" where
  "Player_handlePlatformCollisions p platforms =
     foldl Player_collide (p\<lparr>isGrounded := False\<rparr>) platforms"

definition Player_animations :: "string \<Rightarrow> nat" where
  \<comment> \<open>\<open>this.animations[name].frames\<close>; \<open>currentAnimation\<close> is only ever one of the four names\<close>
  "Player_animations a =
     (if a = ''idle'' then 4 else if a = ''walk'' then 6 else if a = ''jump'' then 4 else 2)"

definition Player_updateAnimation :: "real \<Rightarrow> player \<Rightarrow> player" where
  "Player_updateAnimation deltaTime p0 =
     (let newAnimation =
            (if \<not> isGrounded p0 then (if velocityY p0 < 0 then ''jump'' else ''fall'')
             else if \<bar>velocityX p0\<bar> > 0.5 then ''walk'' else ''idle'');
          p1 = (if newAnimation \<noteq> currentAnimation p0
                then p0\<lparr>currentAnimation := newAnimation, animationFrame := 0,
                        animationTimer := 0\<rparr>
                else p0);
          p2 = p1\<lparr>animationTimer := animationTimer p1 + deltaTime\<rparr>
      in if animationTimer p2 \<ge> animationSpeed p2 then
           (let p3 = p2\<lparr>animationFrame := animationFrame p2 + 1\<rparr>;
                p4 = (if animationFrame p3 \<ge> Player_animations (currentAnimation p3)
                      then p3\<lparr>animationFrame := 0\<rparr> else p3)
            in p4\<lparr>animationTimer := 0\<rparr>)
         else p2)"

definition updateInvulnerability :: "real \<Rightarrow> player \<Rightarrow> player" where
  "updateInvulnerability now p =
     (if invulnerable p then
        (if now - lastDamageTime p \<ge> invulnerabilityTime p then p\<lparr>invulnerable := False\<rparr>
         else p)
      else p)"

text \<open>\<open>Player.takeDamage\<close> returns whether damage was applied, and the player after it.\<close>

definition Player_takeDamage :: "real \<Rightarrow> real \<Rightarrow> player \<Rightarrow> bool \<times> player" where
  "Player_takeDamage now damage p =
     (if invulnerable p then (False, p)
      else
        (let p1 = p\<lparr>health := health p - damage\<rparr>;
             p2 = p1\<lparr>health := max 0 (health p1)\<rparr>;
             p3 = (if health p2 > 0 then p2\<lparr>invulnerable := True, lastDamageTime := now\<rparr>
                   else p2)
         in (True, p3)))"

definition constrainToWorld :: "real \<Rightarrow> player \<Rightarrow> player" where
  "constrainToWorld now p0 =
     (let p1 = p0\<lparr>pos_x := clamp (pos_x p0) 0 (2000 - width p0)\<rparr>
      in if pos_y p1 > 1000 then snd (Player_takeDamage now (health p1) p1) else p1)"

definition heal :: "real \<Rightarrow> player \<Rightarrow> player" where
  "heal amount p = p\<lparr>health := min (maxHealth p) (health p + amount)\<rparr>"

definition isDead :: "player \<Rightarrow> bool" where
  "isDead p = (health p \<le> 0)"

definition respawn :: "real \<Rightarrow> player \<Rightarrow> player" where
  "respawn now p =
     p\<lparr>pos_x := checkpointX p, pos_y := checkpointY p, velocityX := 0, velocityY := 0,
       health := lastCheckpointHealth p, invulnerable := True, lastDamageTime := now,
       isGrounded := False\<rparr>"

definition Player_update :: "real \<Rightarrow> real \<Rightarrow> platform list \<Rightarrow> player \<Rightarrow> player" where
  "Player_update now deltaTime platforms p =
     constrainToWorld now
       (updateInvulnerability now
         (Player_updateAnimation deltaTime
           (Player_handlePlatformCollisions (Player_updatePhysics (handleInput p)) platforms)))"

section \<open>Platform: the behaviours\<close>

definition updateMovement :: "platform \<Rightarrow> platform" where
  "updateMovement pf =
     (if moveAxis pf = ''horizontal'' then
        (let pf1 = pf\<lparr>pos_x := pos_x pf + moveDirection pf * moveSpeed pf\<rparr>
         in if pos_x pf1 \<ge> originalX pf1 + moveDistance pf1
            then pf1\<lparr>pos_x := originalX pf1 + moveDistance pf1, moveDirection := - 1\<rparr>
            else if pos_x pf1 \<le> originalX pf1 - moveDistance pf1
            then pf1\<lparr>pos_x := originalX pf1 - moveDistance pf1, moveDirection := 1\<rparr>
            else pf1)
      else
        (let pf1 = pf\<lparr>pos_y := pos_y pf + moveDirection pf * moveSpeed pf\<rparr>
         in if pos_y pf1 \<ge> originalY pf1 + moveDistance pf1
            then pf1\<lparr>pos_y := originalY pf1 + moveDistance pf1, moveDirection := - 1\<rparr>
            else if pos_y pf1 \<le> originalY pf1 - moveDistance pf1
            then pf1\<lparr>pos_y := originalY pf1 - moveDistance pf1, moveDirection := 1\<rparr>
            else pf1))"

text \<open>
  \<open>createCrumbleParticles\<close> pushes 15 particles, each built from six calls of
  \<open>Math.random()\<close>: call number \<open>6 * i + k\<close> of the supply \<open>rnd\<close> for the \<open>k\<close>-th
  field of particle \<open>i\<close>. The particle's colour is only drawn and is left out.
\<close>

definition createCrumbleParticles :: "(nat \<Rightarrow> real) \<Rightarrow> platform \<Rightarrow> platform" where
  "createCrumbleParticles rnd pf =
     pf\<lparr>crumbleParticles := crumbleParticles pf @
          map (\<lambda>i. \<lparr>part_x = pos_x pf + random (rnd (6 * i)) 0 (width pf),
                     part_y = pos_y pf + random (rnd (6 * i + 1)) 0 (height pf),
                     part_velocityX = random (rnd (6 * i + 2)) (- 3) 3,
                     part_velocityY = random (rnd (6 * i + 3)) (- 2) 1,
                     part_size = random (rnd (6 * i + 4)) 2 6,
                     part_life = random (rnd (6 * i + 5)) 1000 2000,
                     part_age = 0\<rparr>) [0..<15]\<rparr>"

definition startCrumbling :: "(nat \<Rightarrow> real) \<Rightarrow> platform \<Rightarrow> platform" where
  "startCrumbling rnd pf = createCrumbleParticles rnd (pf\<lparr>isCrumbling := True\<rparr>)"

definition updateCrumbling ::
  "(nat \<Rightarrow> real) \<Rightarrow> real \<Rightarrow> player option \<Rightarrow> platform \<Rightarrow> platform" where
  "updateCrumbling rnd deltaTime pl pf0 =
     (let wasPlayerOn = isPlayerOn pf0;
          pf1 = pf0\<lparr>isPlayerOn := False\<rparr>;
          pf2 = (case pl of
                   None \<Rightarrow> pf1
                 | Some p \<Rightarrow>
                     if checkCollision p pf1 then
                       (let playerBottom = pos_y p + height p; platformTop = pos_y pf1
                        in if playerBottom \<le> platformTop + 10 \<and> velocityY p \<ge> 0
                           then pf1\<lparr>isPlayerOn := True\<rparr> else pf1)
                     else pf1);
          pf3 = (if isPlayerOn pf2 \<and> \<not> wasPlayerOn \<and> \<not> isCrumbling pf2
                 then pf2\<lparr>crumbleTimer := 0\<rparr> else pf2)
      in if isPlayerOn pf3 \<and> \<not> isCrumbling pf3 then
           (let pf4 = pf3\<lparr>crumbleTimer := crumbleTimer pf3 + deltaTime\<rparr>
            in if crumbleTimer pf4 \<ge> crumbleDelay pf4 then startCrumbling rnd pf4 else pf4)
         else pf3)"

text \<open>
  \<open>updateCrumbleParticles\<close> walks the array from its end, moves each particle and
  splices out the ones whose age has reached their life: the survivors keep their order.
\<close>

definition particle_step :: "real \<Rightarrow> particle \<Rightarrow> particle" where
  "particle_step deltaTime q =
     q\<lparr>part_x := part_x q + part_velocityX q, part_y := part_y q + part_velocityY q,
       part_velocityY := part_velocityY q + 0.2, part_age := part_age q + deltaTime\<rparr>"

definition updateCrumbleParticles :: "real \<Rightarrow> platform \<Rightarrow> platform" where
  "updateCrumbleParticles deltaTime pf =
     pf\<lparr>crumbleParticles :=
          filter (\<lambda>q. \<not> part_age q \<ge> part_life q)
            (map (particle_step deltaTime) (crumbleParticles pf))\<rparr>"

definition updateBouncy :: "real \<Rightarrow> platform \<Rightarrow> platform" where
  "updateBouncy deltaTime pf =
     (if bounceActive pf then
        (let pf1 = pf\<lparr>bounceTimer := bounceTimer pf + deltaTime\<rparr>;
             progress = bounceTimer pf1 / bounceDuration pf1
         in if progress \<ge> 1 then pf1\<lparr>bounceActive := False, bounceScale := 1\<rparr>
            else pf1\<lparr>bounceScale := 1 - sin (progress * pi) * 0.2\<rparr>)
      else pf)"

definition Platform_update ::
  "(nat \<Rightarrow> real) \<Rightarrow> real \<Rightarrow> player option \<Rightarrow> platform \<Rightarrow> platform" where
  "Platform_update rnd deltaTime pl pf =
     updateCrumbleParticles deltaTime
       (if platformType pf = ''moving'' then updateMovement pf
        else if platformType pf = ''crumbling'' then updateCrumbling rnd deltaTime pl pf
        else if platformType pf = ''bouncy'' then updateBouncy deltaTime pf
        else pf)"

definition triggerBounce :: "platform \<Rightarrow> platform" where
  "triggerBounce pf = pf\<lparr>bounceActive := True, bounceTimer := 0, bounceScale := 1\<rparr>"

text \<open>
  \<open>Platform.handlePlayerCollision\<close> returns \<open>null\<close> or an object whose \<open>side\<close> is the
  side of the collision (its \<open>effect\<close> is always \<open>null\<close>, its \<open>platform\<close> the platform
  itself); the model returns the side, the platform and the player after the call.
\<close>

definition Platform_handlePlayerCollision ::
  "platform \<Rightarrow> player \<Rightarrow> string option \<times> platform \<times> player" where
  "Platform_handlePlayerCollision pf p =
     (if \<not> checkCollision pf p then (None, pf, p)
      else
        (let overlapX = min (pos_x p + width p - pos_x pf) (pos_x pf + width pf - pos_x p);
             overlapY = min (pos_y p + height p - pos_y pf) (pos_y pf + height pf - pos_y p)
         in if overlapX < overlapY then
              (if pos_x p < pos_x pf
               then (Some ''left'', pf, p\<lparr>pos_x := pos_x pf - width p, velocityX := 0\<rparr>)
               else (Some ''right'', pf, p\<lparr>pos_x := pos_x pf + width pf, velocityX := 0\<rparr>))
            else
              (if pos_y p < pos_y pf then
                 (let p1 = p\<lparr>pos_y := pos_y pf - height p\<rparr>;
                      p2 = (if platformType pf = ''bouncy''
                            then p1\<lparr>velocityY := - bounceForce pf\<rparr>
                            else p1\<lparr>velocityY := 0\<rparr>);
                      pf1 = (if platformType pf = ''bouncy'' then triggerBounce pf else pf);
                      p3 = p2\<lparr>isGrounded := True, canDoubleJump := False,
                              hasDoubleJumped := False\<rparr>;
                      p4 = (if platformType pf1 = ''moving'' \<and> moveAxis pf1 = ''horizontal''
                            then p3\<lparr>pos_x := pos_x p3 + moveDirection pf1 * moveSpeed pf1\<rparr>
                            else p3)
                  in (Some ''top'', pf1, p4))
               else (Some ''bottom'', pf,
                     p\<lparr>pos_y := pos_y pf + height pf, velocityY := 0\<rparr>))))"

definition Platform_reset :: "platform \<Rightarrow> platform" where
  "Platform_reset pf =
     pf\<lparr>pos_x := originalX pf, pos_y := originalY pf, moveDirection := 1, crumbleTimer := 0,
        isCrumbling := False, isPlayerOn := False, crumbleParticles := [],
        bounceActive := False, bounceScale := 1\<rparr>"

section \<open>Enemy (input.js)\<close>

record enemy = entity +
  enemyType :: string
  direction :: real
  patrolDistance :: real
  startX :: real
  detectionRange :: real
  chaseSpeed :: real
  isChasing :: bool
  lastPlayerPosition :: "(real \<times> real) option"
  damage :: real
  isAlive :: bool
  canTurnAround :: bool
  turnCooldown :: real
  maxTurnCooldown :: real
  deathTimer :: real
  deathDuration :: real
  shouldRemove :: bool

definition new_Enemy :: "real \<Rightarrow> real \<Rightarrow> string \<Rightarrow> enemy" where
  "new_Enemy x0 y0 ty =
     \<lparr>pos_x = x0, pos_y = y0, width = 28, height = 32,
      velocityX = 0, velocityY = 0, speed = 1.5, gravity = 0.8, maxFallSpeed = 15,
      isGrounded = False, health = 50, maxHealth = 50,
      animationFrame = 0, animationSpeed = 0.2, animationTimer = 0,
      currentAnimation = ''walk'',
      enemyType = ty, direction = 1, patrolDistance = 100, startX = x0,
      detectionRange = 150, chaseSpeed = 2.5, isChasing = False, lastPlayerPosition = None,
      damage = 20, isAlive = True, canTurnAround = True, turnCooldown = 0,
      maxTurnCooldown = 500, deathTimer = 0, deathDuration = 1000, shouldRemove = False\<rparr>"

definition changeDirection :: "enemy \<Rightarrow> enemy" where
  "changeDirection e =
     (if canTurnAround e
      then e\<lparr>direction := direction e * (- 1), canTurnAround := False,
             turnCooldown := maxTurnCooldown e\<rparr>
      else e)"

definition patrol :: "enemy \<Rightarrow> enemy" where
  "patrol e0 =
     (let e1 = e0\<lparr>currentAnimation := ''walk''\<rparr>;
          currentSpeed = speed e1;
          distanceFromStart = pos_x e1 - startX e1;
          e2 = (if distanceFromStart \<ge> patrolDistance e1 \<and> direction e1 > 0
                then changeDirection e1
                else if distanceFromStart \<le> - patrolDistance e1 \<and> direction e1 < 0
                then changeDirection e1
                else e1)
      in e2\<lparr>velocityX := direction e2 * currentSpeed\<rparr>)"

definition chase :: "player \<Rightarrow> enemy \<Rightarrow> enemy" where
  "chase p e0 =
     (let e1 = e0\<lparr>currentAnimation := ''chase''\<rparr>;
          playerCenter = pos_x p + width p / 2;
          enemyCenter = pos_x e1 + width e1 / 2;
          e2 = (if playerCenter < enemyCenter then e1\<lparr>direction := - 1\<rparr>
                else if playerCenter > enemyCenter then e1\<lparr>direction := 1\<rparr>
                else e1)
      in e2\<lparr>velocityX := direction e2 * chaseSpeed e2\<rparr>)"

text \<open>The distance \<open>updateAI\<close> measures: between the centres of the enemy and the player.\<close>

definition distanceToPlayer :: "enemy \<Rightarrow> player \<Rightarrow> real" where
  "distanceToPlayer e p =
     distance (pos_x e + width e / 2) (pos_y e + height e / 2)
              (pos_x p + width p / 2) (pos_y p + height p / 2)"

definition updateAI :: "player option \<Rightarrow> enemy \<Rightarrow> enemy" where
  "updateAI pl e =
     (case pl of
        None \<Rightarrow> patrol (e\<lparr>isChasing := False\<rparr>)
      | Some p \<Rightarrow>
          if isDead p then patrol (e\<lparr>isChasing := False\<rparr>)
          else
            (let e1 = (if distanceToPlayer e p \<le> detectionRange e then
                         chase p (e\<lparr>isChasing := True,
                                    lastPlayerPosition :=
                                      Some (pos_x p + width p / 2, pos_y p + height p / 2)\<rparr>)
                       else if isChasing e \<and> distanceToPlayer e p > detectionRange e * 1.5
                       then e\<lparr>isChasing := False, lastPlayerPosition := None\<rparr>
                       else e)
             in if \<not> isChasing e1 then patrol e1 else e1))"

definition updateTurnCooldown :: "real \<Rightarrow> enemy \<Rightarrow> enemy" where
  "updateTurnCooldown deltaTime e =
     (if turnCooldown e > 0 then
        (let e1 = e\<lparr>turnCooldown := turnCooldown e - deltaTime\<rparr>
         in if turnCooldown e1 \<le> 0 then e1\<lparr>canTurnAround := True\<rparr> else e1)
      else e)"

definition Enemy_updatePhysics :: "enemy \<Rightarrow> enemy" where
  "Enemy_updatePhysics e0 =
     (let e1 = (if \<not> isGrounded e0 then e0\<lparr>velocityY := velocityY e0 + gravity e0\<rparr> else e0);
          e2 = e1\<lparr>velocityY := clamp (velocityY e1) (- 20) (maxFallSpeed e1)\<rparr>
      in e2\<lparr>pos_x := pos_x e2 + velocityX e2, pos_y := pos_y e2 + velocityY e2\<rparr>)"

text \<open>
  The body of the loop of \<open>Enemy.handlePlatformCollisions\<close>: the enemy and the local
  \<open>hitWall\<close>.
\<close>

definition Enemy_collide :: "enemy \<times> bool \<Rightarrow> platform \<Rightarrow> enemy \<times> bool" where
  "Enemy_collide eh pf =
     (let e = fst eh; hitWall = snd eh in
      if checkCollision e pf then
        (let overlapX = min (pos_x e + width e - pos_x pf) (pos_x pf + width pf - pos_x e);
             overlapY = min (pos_y e + height e - pos_y pf) (pos_y pf + height pf - pos_y e)
         in if overlapX < overlapY then
              ((if pos_x e < pos_x pf then e\<lparr>pos_x := pos_x pf - width e\<rparr>
                else e\<lparr>pos_x := pos_x pf + width pf\<rparr>)\<lparr>velocityX := 0\<rparr>, True)
            else
              (if pos_y e < pos_y pf
               then (e\<lparr>pos_y := pos_y pf - height e, velocityY := 0, isGrounded := True\<rparr>,
                     hitWall)
               else (e\<lparr>pos_y := pos_y pf + height pf, velocityY := 0\<rparr>, hitWall)))
      else (e, hitWall))"

definition checkForEdges :: "platform list \<Rightarrow> enemy \<Rightarrow> enemy" where
  "checkForEdges platforms e =
     (let futureX = pos_x e + direction e * 20;
          futureY = pos_y e + height e + 10;
          foundGround =
            list_ex (\<lambda>pf. futureX + width e > pos_x pf \<and> futureX < pos_x pf + width pf \<and>
                           futureY > pos_y pf \<and> futureY < pos_y pf + height pf) platforms
      in if \<not> foundGround then changeDirection e else e)"

definition Enemy_handlePlatformCollisions :: "platform list \<Rightarrow> enemy \<Rightarrow> enemy" where
  "Enemy_handlePlatformCollisions platforms e0 =
     (let eh = foldl Enemy_collide (e0\<lparr>isGrounded := False\<rparr>, False) platforms;
          e1 = fst eh; hitWall = snd eh;
          e2 = (if hitWall \<and> \<not> isChasing e1 then changeDirection e1 else e1)
      in if isGrounded e2 \<and> \<not> isChasing e2 then checkForEdges platforms e2 else e2)"

definition Enemy_animations :: "string \<Rightarrow> nat" where
  \<comment> \<open>\<open>this.animations[name].frames\<close>; \<open>currentAnimation\<close> is only ever \<open>walk\<close>, \<open>chase\<close> or \<open>death\<close>\<close>
  "Enemy_animations a =
     (if a = ''walk'' then 4 else if a = ''chase'' then 4 else if a = ''idle'' then 2 else 3)"

definition Enemy_updateAnimation :: "real \<Rightarrow> enemy \<Rightarrow> enemy" where
  "Enemy_updateAnimation deltaTime e0 =
     (let e1 = e0\<lparr>animationTimer := animationTimer e0 + deltaTime\<rparr>
      in if animationTimer e1 \<ge> animationSpeed e1 then
           (let e2 = e1\<lparr>animationFrame := animationFrame e1 + 1\<rparr>;
                e3 = (if animationFrame e2 \<ge> Enemy_animations (currentAnimation e2)
                      then e2\<lparr>animationFrame := 0\<rparr> else e2)
            in e3\<lparr>animationTimer := 0\<rparr>)
         else e1)"

definition updateDeath :: "real \<Rightarrow> enemy \<Rightarrow> enemy" where
  "updateDeath deltaTime e0 =
     (let e1 = e0\<lparr>currentAnimation := ''death'', deathTimer := deathTimer e0 + deltaTime\<rparr>
      in if deathTimer e1 \<ge> deathDuration e1 then e1\<lparr>shouldRemove := True\<rparr> else e1)"

definition die :: "enemy \<Rightarrow> enemy" where
  "die e = e\<lparr>isAlive := False, velocityX := 0, deathTimer := 0\<rparr>"

text \<open>\<open>Enemy.takeDamage\<close> returns whether the enemy died from this damage.\<close>

definition Enemy_takeDamage :: "real \<Rightarrow> enemy \<Rightarrow> bool \<times> enemy" where
  "Enemy_takeDamage dmg e =
     (if \<not> isAlive e then (False, e)
      else
        (let e1 = e\<lparr>health := health e - dmg\<rparr>;
             e2 = e1\<lparr>health := max 0 (health e1)\<rparr>
         in if health e2 \<le> 0 then (True, die e2) else (False, e2)))"

text \<open>
  \<open>Enemy.checkPlayerCollision\<close> returns a boolean and changes the enemy and the player;
  the model returns all three. A \<open>null\<close> player is \<open>None\<close>.
\<close>

definition Enemy_checkPlayerCollision ::
  "real \<Rightarrow> enemy \<Rightarrow> player option \<Rightarrow> bool \<times> enemy \<times> player option" where
  "Enemy_checkPlayerCollision now e pl =
     (case pl of
        None \<Rightarrow> (False, e, None)
      | Some p \<Rightarrow>
          if \<not> isAlive e \<or> isDead p then (False, e, Some p)
          else if checkCollision e p then
            (let playerBottom = pos_y p + height p; enemyTop = pos_y e
             in if playerBottom \<le> enemyTop + 10 \<and> velocityY p > 0
                then (False, snd (Enemy_takeDamage (maxHealth e) e),
                      Some (p\<lparr>velocityY := - 8\<rparr>))
                else (fst (Player_takeDamage now (damage e) p), e,
                      Some (snd (Player_takeDamage now (damage e) p))))
          else (False, e, Some p))"

definition Enemy_update :: "real \<Rightarrow> platform list \<Rightarrow> player option \<Rightarrow> enemy \<Rightarrow> enemy" where
  "Enemy_update deltaTime platforms pl e =
     (if \<not> isAlive e then updateDeath deltaTime e
      else updateTurnCooldown deltaTime
             (Enemy_updateAnimation deltaTime
               (Enemy_handlePlatformCollisions platforms
                 (Enemy_updatePhysics (updateAI pl e)))))"

definition Enemy_reset :: "enemy \<Rightarrow> enemy" where
  "Enemy_reset e =
     e\<lparr>pos_x := startX e, velocityX := 0, velocityY := 0, health := maxHealth e,
       isAlive := True, isChasing := False, direction := 1, deathTimer := 0,
       shouldRemove := False, canTurnAround := True, turnCooldown := 0,
       lastPlayerPosition := None\<rparr>"

section \<open>Collectible\<close>

text \<open>
  The fields that \<open>Collectible\<close> names like fields of the records above carry the prefix
  \<open>item_\<close>; its nested \<open>collectionAnimation\<close> object is the five \<open>collect...\<close> fields.
  \<open>maxFrames\<close> is only assigned for a known type, so it is optional.
\<close>

record collectible = rect +
  item_originalY :: real
  collectibleType :: string
  item_value :: real
  collected :: bool
  item_animationFrame :: nat
  item_animationSpeed :: real
  item_animationTimer :: real
  maxFrames :: "nat option"
  bobOffset :: real
  bobSpeed :: real
  bobHeight :: real
  rotation :: real
  rotationSpeed :: real
  glowIntensity :: real
  glowDirection :: real
  glowSpeed :: real
  collectActive :: bool
  collectScale :: real
  collectAlpha :: real
  collectDuration :: real
  collectTimer :: real
  magneticRange :: real
  magneticSpeed :: real
  isBeingAttracted :: bool

text \<open>The table \<open>this.types\<close>: the value and the frames of each known type.\<close>

definition Collectible_types :: "string \<Rightarrow> (real \<times> nat) option" where
  "Collectible_types ty =
     (if ty = ''coin'' then Some (10, 8)
      else if ty = ''gem'' then Some (50, 6)
      else if ty = ''health'' then Some (25, 4)
      else if ty = ''star'' then Some (100, 8)
      else None)"

definition updateTypeProperties :: "collectible \<Rightarrow> collectible" where
  "updateTypeProperties c =
     (case Collectible_types (collectibleType c) of
        Some (v, frames) \<Rightarrow> c\<lparr>item_value := v, maxFrames := Some frames\<rparr>
      | None \<Rightarrow> c)"

definition new_Collectible :: "real \<Rightarrow> real \<Rightarrow> string \<Rightarrow> real \<Rightarrow> collectible" where
  "new_Collectible x0 y0 ty v =
     updateTypeProperties
       \<lparr>pos_x = x0, pos_y = y0, width = 24, height = 24,
        item_originalY = y0, collectibleType = ty, item_value = v, collected = False,
        item_animationFrame = 0, item_animationSpeed = 0.15, item_animationTimer = 0,
        maxFrames = None, bobOffset = 0, bobSpeed = 0.05, bobHeight = 8,
        rotation = 0, rotationSpeed = 0.1,
        glowIntensity = 0, glowDirection = 1, glowSpeed = 0.03,
        collectActive = False, collectScale = 1, collectAlpha = 1, collectDuration = 500,
        collectTimer = 0,
        magneticRange = 60, magneticSpeed = 3, isBeingAttracted = False\<rparr>"

definition Collectible_updateAnimation :: "real \<Rightarrow> collectible \<Rightarrow> collectible" where
  "Collectible_updateAnimation deltaTime c0 =
     (let c1 = c0\<lparr>item_animationTimer := item_animationTimer c0 + deltaTime\<rparr>
      in if item_animationTimer c1 \<ge> item_animationSpeed c1 then
           (let c2 = c1\<lparr>item_animationFrame := item_animationFrame c1 + 1\<rparr>;
                c3 = (case maxFrames c2 of
                        Some m \<Rightarrow> if item_animationFrame c2 \<ge> m
                                  then c2\<lparr>item_animationFrame := 0\<rparr> else c2
                      | None \<Rightarrow> c2)
            in c3\<lparr>item_animationTimer := 0\<rparr>)
         else c1)"

definition updateBobbing :: "collectible \<Rightarrow> collectible" where
  "updateBobbing c0 =
     (let c1 = c0\<lparr>bobOffset := bobOffset c0 + bobSpeed c0\<rparr>
      in c1\<lparr>pos_y := item_originalY c1 + sin (bobOffset c1) * bobHeight c1\<rparr>)"

definition updateRotation :: "collectible \<Rightarrow> collectible" where
  "updateRotation c0 =
     (let c1 = c0\<lparr>rotation := rotation c0 + rotationSpeed c0\<rparr>
      in if rotation c1 \<ge> pi * 2 then c1\<lparr>rotation := 0\<rparr> else c1)"

definition updateGlow :: "collectible \<Rightarrow> collectible" where
  "updateGlow c0 =
     (let c1 = c0\<lparr>glowIntensity := glowIntensity c0 + glowDirection c0 * glowSpeed c0\<rparr>
      in if glowIntensity c1 \<ge> 1 then c1\<lparr>glowIntensity := 1, glowDirection := - 1\<rparr>
         else if glowIntensity c1 \<le> 0.3 then c1\<lparr>glowIntensity := 0.3, glowDirection := 1\<rparr>
         else c1)"

definition updateMagneticAttraction :: "player \<Rightarrow> collectible \<Rightarrow> collectible" where
  "updateMagneticAttraction p c =
     (let playerCenterX = pos_x p + width p / 2; playerCenterY = pos_y p + height p / 2;
          centerX = pos_x c + width c / 2; centerY = pos_y c + height c / 2;
          dist = distance centerX centerY playerCenterX playerCenterY
      in if dist \<le> magneticRange c then
           (let c1 = c\<lparr>isBeingAttracted := True\<rparr>;
                dx = playerCenterX - centerX;
                dy = playerCenterY - centerY;
                magnitude = sqrt (dx * dx + dy * dy)
            in if magnitude > 0 then
                 (let normalizedDx = dx / magnitude;
                      normalizedDy = dy / magnitude;
                      attractionMultiplier = (magneticRange c1 - dist) / magneticRange c1;
                      speed' = magneticSpeed c1 * attractionMultiplier * 2
                  in c1\<lparr>pos_x := pos_x c1 + normalizedDx * speed',
                         pos_y := pos_y c1 + normalizedDy * speed'\<rparr>)
               else c1)
         else c\<lparr>isBeingAttracted := False\<rparr>)"

definition updateCollectionAnimation :: "real \<Rightarrow> collectible \<Rightarrow> collectible" where
  "updateCollectionAnimation deltaTime c0 =
     (let c1 = c0\<lparr>collectTimer := collectTimer c0 + deltaTime\<rparr>;
          progress = collectTimer c1 / collectDuration c1
      in if progress \<ge> 1 then c1\<lparr>collectActive := False\<rparr>
         else c1\<lparr>collectScale := 1 + progress * 2, collectAlpha := 1 - progress,
                 pos_y := pos_y c1 - 2\<rparr>)"

definition Collectible_update :: "real \<Rightarrow> player option \<Rightarrow> collectible \<Rightarrow> collectible" where
  "Collectible_update deltaTime pl c0 =
     (if collected c0 \<and> \<not> collectActive c0 then c0
      else
        (let c1 = updateGlow (updateRotation (updateBobbing
                    (Collectible_updateAnimation deltaTime c0)));
             c2 = (case pl of
                     Some p \<Rightarrow> if \<not> collected c1 then updateMagneticAttraction p c1 else c1
                   | None \<Rightarrow> c1)
         in if collectActive c2 then updateCollectionAnimation deltaTime c2 else c2))"

definition getCollectionEffect :: "collectible \<Rightarrow> string" where
  "getCollectionEffect c =
     (if collectibleType c = ''health'' then ''health''
      else if collectibleType c = ''star'' then ''special''
      else ''score'')"

text \<open>The object \<open>collect()\<close> returns: the item's type, its value and its effect.\<close>

record collection =
  collection_type :: string
  collection_value :: real
  collection_effect :: string

definition collect :: "collectible \<Rightarrow> collection option \<times> collectible" where
  "collect c =
     (if collected c then (None, c)
      else
        (let c1 = c\<lparr>collected := True, collectActive := True, collectTimer := 0,
                     collectScale := 1, collectAlpha := 1\<rparr>
         in (Some \<lparr>collection_type = collectibleType c1, collection_value = item_value c1,
                    collection_effect = getCollectionEffect c1\<rparr>, c1)))"

definition Collectible_checkPlayerCollision ::
  "collectible \<Rightarrow> player option \<Rightarrow> collection option \<times> collectible" where
  "Collectible_checkPlayerCollision c pl =
     (case pl of
        None \<Rightarrow> (None, c)
      | Some p \<Rightarrow>
          if collected c then (None, c)
          else if checkCollision c p then collect c
          else (None, c))"

definition Collectible_reset :: "collectible \<Rightarrow> collectible" where
  "Collectible_reset c =
     c\<lparr>collected := False, collectActive := False, pos_y := item_originalY c, bobOffset := 0,
       rotation := 0, glowIntensity := 0.3, glowDirection := 1, isBeingAttracted := False\<rparr>"

text \<open>
  What happens to a collectible within one life of the level: the per-frame update, the
  per-frame collision check against the player, and a direct \<open>collect()\<close>. The results
  of a run are what each call returned to its caller (an update returns nothing).
\<close>

datatype item_call = ItemUpdate real "player option" | ItemCheck "player option" | ItemCollect

fun item_apply :: "collectible \<Rightarrow> item_call \<Rightarrow> collection option \<times> collectible" where
  "item_apply c (ItemUpdate deltaTime pl) = (None, Collectible_update deltaTime pl c)"
| "item_apply c (ItemCheck pl) = Collectible_checkPlayerCollision c pl"
| "item_apply c ItemCollect = collect c"

fun item_run :: "collectible \<Rightarrow> item_call list \<Rightarrow> collection option list \<times> collectible" where
  "item_run c [] = ([], c)"
| "item_run c (k # ks) =
     (fst (item_apply c k) # fst (item_run (snd (item_apply c k)) ks),
      snd (item_run (snd (item_apply c k)) ks))"

definition reports :: "collection option list \<Rightarrow> nat" where
  "reports rs = length (filter (\<lambda>r. r \<noteq> None) rs)"

section \<open>Camera (input.js)\<close>

text \<open>
  The camera's nested objects are flattened: \<open>targetOffset\<close>, \<open>deadzone\<close>, \<open>velocity\<close>,
  \<open>shake\<close> (with its \<open>offset\<close>), \<open>bounds\<close> and \<open>effects\<close>. The camera holds a reference
  to the object it follows; the model passes that object's current state as an argument.
  The camera reads the fields \<open>x\<close>, \<open>y\<close>, \<open>width\<close>, \<open>height\<close> and \<open>velocityX\<close> of
  whatever it follows, and guards the last three against being undefined
  (\<open>width || 0\<close>, \<open>velocityX !== undefined\<close>): they are optional in \<open>cam_target\<close>.
\<close>

record cam_target =
  target_x :: real
  target_y :: real
  target_width :: "real option"
  target_height :: "real option"
  target_velocityX :: "real option"

definition target_of_player :: "player \<Rightarrow> cam_target" where
  "target_of_player p =
     \<lparr>target_x = pos_x p, target_y = pos_y p, target_width = Some (width p),
      target_height = Some (height p), target_velocityX = Some (velocityX p)\<rparr>"

definition or_zero :: "real option \<Rightarrow> real" where
  \<comment> \<open>\<open>v || 0\<close>\<close>
  "or_zero v = (case v of None \<Rightarrow> 0 | Some r \<Rightarrow> r)"

record camera = rect +
  worldWidth :: real
  worldHeight :: real
  targetOffsetX :: real
  targetOffsetY :: real
  followSpeed :: real
  lookahead :: real
  deadzoneX :: real
  deadzoneY :: real
  cam_velocityX :: real
  cam_velocityY :: real
  smoothing :: real
  shakeActive :: bool
  shakeIntensity :: real
  shakeDuration :: real
  shakeTimer :: real
  shakeOffsetX :: real
  shakeOffsetY :: real
  zoom :: real
  targetZoom :: real
  zoomSpeed :: real
  minZoom :: real
  maxZoom :: real
  boundsLeft :: real
  boundsRight :: real
  boundsTop :: real
  boundsBottom :: real
  flashActive :: bool
  flashColor :: string
  flashIntensity :: real
  flashDuration :: real
  flashTimer :: real

definition new_Camera :: "real \<Rightarrow> real \<Rightarrow> real \<Rightarrow> real \<Rightarrow> camera" where
  "new_Camera canvasWidth canvasHeight ww wh =
     \<lparr>pos_x = 0, pos_y = 0, width = canvasWidth, height = canvasHeight,
      worldWidth = ww, worldHeight = wh, targetOffsetX = 0, targetOffsetY = 0,
      followSpeed = 0.1, lookahead = 50,
      deadzoneX = canvasWidth * 0.3, deadzoneY = canvasHeight * 0.2,
      cam_velocityX = 0, cam_velocityY = 0, smoothing = 0.8,
      shakeActive = False, shakeIntensity = 0, shakeDuration = 0, shakeTimer = 0,
      shakeOffsetX = 0, shakeOffsetY = 0,
      zoom = 1, targetZoom = 1, zoomSpeed = 0.05, minZoom = 0.5, maxZoom = 2,
      boundsLeft = 0, boundsRight = ww, boundsTop = 0, boundsBottom = wh,
      flashActive = False, flashColor = ''#ffffff'', flashIntensity = 0, flashDuration = 0,
      flashTimer = 0\<rparr>"

definition updateTargetFollowing :: "cam_target \<Rightarrow> camera \<Rightarrow> camera" where
  "updateTargetFollowing tg cam =
     (let targetX = target_x tg + or_zero (target_width tg) / 2 + targetOffsetX cam;
          targetY = target_y tg + or_zero (target_height tg) / 2 + targetOffsetY cam;
          desiredX0 = targetX - width cam / 2;
          desiredY0 = targetY - height cam / 2;
          desiredX1 = (case target_velocityX tg of
                         Some v \<Rightarrow> desiredX0 + v * lookahead cam
                       | None \<Rightarrow> desiredX0);
          currentCenterX = pos_x cam + width cam / 2;
          currentCenterY = pos_y cam + height cam / 2;
          deltaX = targetX - currentCenterX;
          deltaY = targetY - currentCenterY;
          desiredX = (if \<bar>deltaX\<bar> > deadzoneX cam
                      then pos_x cam + (deltaX - sgn deltaX * deadzoneX cam)
                      else pos_x cam);
          desiredY = (if \<bar>deltaY\<bar> > deadzoneY cam
                      then pos_y cam + (deltaY - sgn deltaY * deadzoneY cam)
                      else pos_y cam);
          cam1 = cam\<lparr>cam_velocityX :=
                       lerp (cam_velocityX cam) ((desiredX - pos_x cam) * followSpeed cam)
                         (smoothing cam)\<rparr>;
          cam2 = cam1\<lparr>cam_velocityY :=
                        lerp (cam_velocityY cam1) ((desiredY - pos_y cam1) * followSpeed cam1)
                          (smoothing cam1)\<rparr>
      in cam2\<lparr>pos_x := pos_x cam2 + cam_velocityX cam2,
              pos_y := pos_y cam2 + cam_velocityY cam2\<rparr>)"

text \<open>
  The same update with the lookahead statement deleted: the comparison the specification
  makes. It is written from the specification's words, not from the source.
\<close>

definition updateTargetFollowing_without_lookahead :: "cam_target \<Rightarrow> camera \<Rightarrow> camera" where
  "updateTargetFollowing_without_lookahead tg cam =
     (let targetX = target_x tg + or_zero (target_width tg) / 2 + targetOffsetX cam;
          targetY = target_y tg + or_zero (target_height tg) / 2 + targetOffsetY cam;
          deltaX = targetX - (pos_x cam + width cam / 2);
          deltaY = targetY - (pos_y cam + height cam / 2);
          desiredX = (if \<bar>deltaX\<bar> > deadzoneX cam
                      then pos_x cam + (deltaX - sgn deltaX * deadzoneX cam)
                      else pos_x cam);
          desiredY = (if \<bar>deltaY\<bar> > deadzoneY cam
                      then pos_y cam + (deltaY - sgn deltaY * deadzoneY cam)
                      else pos_y cam);
          vx = lerp (cam_velocityX cam) ((desiredX - pos_x cam) * followSpeed cam)
                 (smoothing cam);
          vy = lerp (cam_velocityY cam) ((desiredY - pos_y cam) * followSpeed cam)
                 (smoothing cam)
      in cam\<lparr>cam_velocityX := vx, cam_velocityY := vy,
             pos_x := pos_x cam + vx, pos_y := pos_y cam + vy\<rparr>)"

definition startShake :: "real \<Rightarrow> real \<Rightarrow> camera \<Rightarrow> camera" where
  "startShake intensity duration cam =
     cam\<lparr>shakeActive := True, shakeIntensity := intensity, shakeDuration := duration,
         shakeTimer := 0\<rparr>"

definition startFlash :: "string \<Rightarrow> real \<Rightarrow> camera \<Rightarrow> camera" where
  "startFlash color duration cam =
     cam\<lparr>flashActive := True, flashColor := color, flashDuration := duration,
         flashTimer := 0, flashIntensity := 1\<rparr>"

section \<open>Game: collisions and the end-of-frame conditions\<close>

text \<open>
  \<open>Game.updatePlaying\<close> ends with \<open>this.handleCollisions()\<close> and then
  \<open>this.checkGameConditions()\<close>. The record holds what these two read and write: the
  player, the camera, the level's enemies and collectibles, its \<open>completed\<close> flag, its
  \<open>timeLimit\<close> (\<open>null\<close> is \<open>None\<close>) and \<open>startTime\<close>, and the game's score, lives and
  state. The overlay screens they show and \<open>inputManager.vibrate\<close> are left out.
\<close>

record game =
  g_player :: player
  g_camera :: camera
  g_enemies :: "enemy list"
  g_collectibles :: "collectible list"
  score :: real
  totalScore :: real
  lives :: int
  state :: string
  completed :: bool
  timeLimit :: "real option"
  startTime :: real

definition handleCollectibleCollection :: "collection \<Rightarrow> game \<Rightarrow> game" where
  "handleCollectibleCollection col g =
     (if collection_effect col = ''score'' then g\<lparr>score := score g + collection_value col\<rparr>
      else if collection_effect col = ''health''
      then g\<lparr>g_player := heal (collection_value col) (g_player g)\<rparr>
      else if collection_effect col = ''special''
      then g\<lparr>score := score g + collection_value col,
             g_camera := startFlash ''#ffdd00'' 300 (g_camera g)\<rparr>
      else g)"

text \<open>The first loop of \<open>handleCollisions\<close>, over the enemies.\<close>

fun enemy_collisions ::
  "real \<Rightarrow> enemy list \<Rightarrow> player \<Rightarrow> camera \<Rightarrow> enemy list \<times> player \<times> camera" where
  "enemy_collisions now [] p cam = ([], p, cam)"
| "enemy_collisions now (e # es) p cam =
     (case Enemy_checkPlayerCollision now e (Some p) of
        (hit, e1, pl) \<Rightarrow>
          (case enemy_collisions now es (case pl of Some p1 \<Rightarrow> p1 | None \<Rightarrow> p)
                  (if hit then startShake 5 200 cam else cam) of
             (es1, p2, cam2) \<Rightarrow> (e1 # es1, p2, cam2)))"

text \<open>The second loop, over the collectibles.\<close>

fun collectible_collisions :: "collectible list \<Rightarrow> game \<Rightarrow> collectible list \<times> game" where
  "collectible_collisions [] g = ([], g)"
| "collectible_collisions (c # cs) g =
     (case Collectible_checkPlayerCollision c (Some (g_player g)) of
        (r, c1) \<Rightarrow>
          (case collectible_collisions cs
                  (case r of Some col \<Rightarrow> handleCollectibleCollection col g | None \<Rightarrow> g) of
             (cs1, g1) \<Rightarrow> (c1 # cs1, g1)))"

definition handleCollisions :: "real \<Rightarrow> game \<Rightarrow> game" where
  "handleCollisions now g =
     (case enemy_collisions now (g_enemies g) (g_player g) (g_camera g) of
        (es, p, cam) \<Rightarrow>
          (case collectible_collisions (g_collectibles g)
                  (g\<lparr>g_enemies := es, g_player := p, g_camera := cam\<rparr>) of
             (cs, g1) \<Rightarrow> g1\<lparr>g_collectibles := cs\<rparr>))"

definition no_limit :: "real option \<Rightarrow> bool" where
  \<comment> \<open>\<open>!this.timeLimit\<close>: the limit is \<open>null\<close> or zero\<close>
  "no_limit tlimit = (case tlimit of None \<Rightarrow> True | Some t \<Rightarrow> t = 0)"

definition isTimeUp :: "real \<Rightarrow> game \<Rightarrow> bool" where
  "isTimeUp now g =
     (if no_limit (timeLimit g) then False
      else now - startTime g \<ge> or_zero (timeLimit g))"

definition getRemainingTime :: "real \<Rightarrow> game \<Rightarrow> real option" where
  \<comment> \<open>\<open>null\<close> without a limit\<close>
  "getRemainingTime now g =
     (if no_limit (timeLimit g) then None
      else Some (max 0 (or_zero (timeLimit g) - (now - startTime g))))"

definition calculateTimeBonus :: "real \<Rightarrow> game \<Rightarrow> real" where
  "calculateTimeBonus now g =
     (if no_limit (timeLimit g) then 0
      else real_of_int \<lfloor>or_zero (getRemainingTime now g) / or_zero (timeLimit g) * 1000\<rfloor>)"

definition gameOver :: "game \<Rightarrow> game" where
  "gameOver g = g\<lparr>state := ''gameOver''\<rparr>"

definition levelComplete :: "real \<Rightarrow> game \<Rightarrow> game" where
  "levelComplete now g0 =
     (let g1 = g0\<lparr>state := ''levelComplete'', totalScore := totalScore g0 + score g0\<rparr>;
          timeBonus = calculateTimeBonus now g1;
          healthBonus = real_of_int \<lfloor>health (g_player g1)\<rfloor>;
          g2 = g1\<lparr>score := score g1 + (timeBonus + healthBonus)\<rparr>
      in g2\<lparr>totalScore := totalScore g2 + (timeBonus + healthBonus)\<rparr>)"

definition checkGameConditions :: "real \<Rightarrow> game \<Rightarrow> game" where
  "checkGameConditions now g0 =
     (let g1 = (if isDead (g_player g0) then
                  (let g = g0\<lparr>lives := lives g0 - 1\<rparr>
                   in if lives g \<le> 0 then gameOver g
                      else g\<lparr>g_player := respawn now (g_player g),
                             g_camera := startShake 8 500 (g_camera g)\<rparr>)
                else g0);
          g2 = (if completed g1 then levelComplete now g1 else g1)
      in if isTimeUp now g2 then gameOver g2 else g2)"

section \<open>Sequences of damage and healing\<close>

datatype health_call = TakeDamage real real | Heal real

fun health_arg :: "health_call \<Rightarrow> real" where
  "health_arg (TakeDamage now d) = d"
| "health_arg (Heal a) = a"

fun health_apply :: "player \<Rightarrow> health_call \<Rightarrow> player" where
  "health_apply p (TakeDamage now d) = snd (Player_takeDamage now d p)"
| "health_apply p (Heal a) = heal a p"

text \<open>The player after each call of a sequence, in order.\<close>

fun health_trace :: "player \<Rightarrow> health_call list \<Rightarrow> player list" where
  "health_trace p [] = []"
| "health_trace p (c # cs) = health_apply p c # health_trace (health_apply p c) cs"

definition health_in_bounds :: "player \<Rightarrow> bool" where
  "health_in_bounds p = (0 \<le> health p \<and> health p \<le> maxHealth p)"

definition nonneg_args :: "health_call list \<Rightarrow> bool" where
  "nonneg_args cs = list_all (\<lambda>c. 0 \<le> health_arg c) cs"

section \<open>Game: the player and the platforms in a playing frame\<close>

text \<open>
  \<open>Player.setInput(key, pressed)\<close> writes \<open>keys.jumpPressed\<close> for the key \<open>jump\<close> and
  \<open>keys[key]\<close> otherwise; the game calls it with \<open>left\<close>, \<open>right\<close> and \<open>jump\<close>.
\<close>

definition setInput :: "string \<Rightarrow> bool \<Rightarrow> player \<Rightarrow> player" where
  "setInput key pressed p =
     (if key = ''jump'' then p\<lparr>key_jumpPressed := pressed\<rparr>
      else if key = ''left'' then p\<lparr>key_left := pressed\<rparr>
      else if key = ''right'' then p\<lparr>key_right := pressed\<rparr>
      else if key = ''jumpPressed'' then p\<lparr>key_jumpPressed := pressed\<rparr>
      else p)"

text \<open>
  What one frame takes from outside: the clock, the frame's \<open>deltaTime\<close>, what
  \<open>inputManager.isPressed\<close> answers for the three actions, and the random numbers
  (\<open>f_random f i\<close> is the supply the platform at index \<open>i\<close> draws from in this frame).
\<close>

record frame =
  f_now :: real
  f_deltaTime :: real
  f_left :: bool
  f_right :: bool
  f_jump :: bool
  f_random :: "nat \<Rightarrow> nat \<Rightarrow> real"

definition updatePlayerInput :: "frame \<Rightarrow> player \<Rightarrow> player" where
  "updatePlayerInput f p =
     setInput ''jump'' (f_jump f) (setInput ''right'' (f_right f) (setInput ''left'' (f_left f) p))"

text \<open>The first loop of \<open>Level.update\<close>: every platform is updated against the player.\<close>

definition Level_update_platforms ::
  "(nat \<Rightarrow> nat \<Rightarrow> real) \<Rightarrow> real \<Rightarrow> player \<Rightarrow> platform list \<Rightarrow> platform list" where
  "Level_update_platforms rnd deltaTime p platforms =
     map (\<lambda>(i, pf). Platform_update (rnd i) deltaTime (Some p) pf) (enumerate 0 platforms)"

text \<open>
  \<open>Game.updatePlaying\<close> in a level that holds platforms only (no enemy, collectible or
  checkpoint), as far as the player and the platforms go: \<open>updatePlayerInput\<close>,
  \<open>player.update\<close>, then the platforms in \<open>level.update\<close>; \<open>handleCollisions\<close> has
  nothing to do there, and \<open>checkGameConditions\<close> respawns a dead player while lives
  remain (without lives the game is over and no further frame is played).
\<close>

definition playing_frame :: "player \<times> platform list \<Rightarrow> frame \<Rightarrow> player \<times> platform list" where
  "playing_frame s f =
     (let p1 = updatePlayerInput f (fst s);
          p2 = Player_update (f_now f) (f_deltaTime f) (snd s) p1;
          platforms = Level_update_platforms (f_random f) (f_deltaTime f) p2 (snd s);
          p3 = (if isDead p2 then respawn (f_now f) p2 else p2)
      in (p3, platforms))"

definition playing_frames :: "frame list \<Rightarrow> player \<times> platform list \<Rightarrow> player \<times> platform list" where
  "playing_frames fs s = foldl playing_frame s fs"

text \<open>A frame at time \<open>fst t\<close> of length \<open>snd t\<close> in which no key is pressed.\<close>

definition idle_frame :: "real \<times> real \<Rightarrow> frame" where
  "idle_frame t = \<lparr>f_now = fst t, f_deltaTime = snd t, f_left = False, f_right = False,
                   f_jump = False, f_random = (\<lambda>i k. 0)\<rparr>"

text \<open>
  \<open>inside_world\<close>: the platform lies between the bounds \<open>constrainToWorld\<close> clamps the
  player's x to, a player's width away from either. \<open>untouched q pf\<close>: the platform \<open>q\<close>
  is where \<open>pf\<close> is, of its type, with its timer and its flag. \<open>at_rest\<close>: the player
  stands still with its feet at the top of the crumbling platform of level 3, alive.
\<close>

definition inside_world :: "player \<Rightarrow> platform \<Rightarrow> bool" where
  "inside_world p pf = (width p \<le> pos_x pf \<and> pos_x pf + width pf \<le> 2000 - width p)"

definition same_place :: "platform \<Rightarrow> platform \<Rightarrow> bool" where
  "same_place q pf =
     (pos_x q = pos_x pf \<and> pos_y q = pos_y pf \<and> width q = width pf \<and> height q = height pf \<and>
      platformType q = platformType pf)"

definition untouched :: "platform \<Rightarrow> platform \<Rightarrow> bool" where
  "untouched q pf =
     (same_place q pf \<and> isCrumbling q = isCrumbling pf \<and> crumbleTimer q = crumbleTimer pf)"

definition at_rest :: "player \<Rightarrow> bool" where
  "at_rest p =
     (pos_x p = 660 \<and> pos_y p = 302 \<and> width p = 32 \<and> height p = 48 \<and>
      velocityX p = 0 \<and> velocityY p = 0 \<and> speed p = 5 \<and> gravity p = 0.8 \<and>
      maxFallSpeed p = 15 \<and> jumpPower p = 15 \<and> 0 < health p)"

section \<open>What the theorems speak of\<close>

text \<open>
  The invariant of an enemy, the calls an enemy receives in a frame (its update from the
  level, then its collision check from the game), and the concrete objects of the
  examples.
\<close>

text \<open>
  What the constructor gives every enemy and no method takes away: the health is at most
  \<open>maxHealth\<close>, which is 50, and the damage is 20.
\<close>

definition enemy_inv :: "enemy \<Rightarrow> bool" where
  "enemy_inv e = (health e \<le> maxHealth e \<and> maxHealth e = 50 \<and> damage e = 20)"

text \<open>
  \<open>Level.update\<close> calls \<open>enemy.update(deltaTime, platforms, player)\<close> and
  \<open>Game.handleCollisions\<close> calls \<open>enemy.checkPlayerCollision(player)\<close>, frame after
  frame; \<open>enemy_run\<close> is the enemy after a sequence of such calls.
\<close>

datatype enemy_call =
  EnemyUpdate real "platform list" "player option" | EnemyCheck real "player option"

fun enemy_apply :: "enemy \<Rightarrow> enemy_call \<Rightarrow> enemy" where
  "enemy_apply e (EnemyUpdate deltaTime platforms pl) = Enemy_update deltaTime platforms pl e"
| "enemy_apply e (EnemyCheck now pl) = fst (snd (Enemy_checkPlayerCollision now e pl))"

fun enemy_run :: "enemy \<Rightarrow> enemy_call list \<Rightarrow> enemy" where
  "enemy_run e [] = e"
| "enemy_run e (k # ks) = enemy_run (enemy_apply e k) ks"

text \<open>
  \<open>stays_in_band\<close>: every update of the sequence is given a live player whose centre
  is, at that update, within \<open>detectionRange * 1.5\<close> of the enemy's.
\<close>

fun in_band :: "enemy \<Rightarrow> enemy_call \<Rightarrow> bool" where
  "in_band e (EnemyUpdate deltaTime platforms pl) =
     (case pl of None \<Rightarrow> False
      | Some p \<Rightarrow> \<not> isDead p \<and> distanceToPlayer e p \<le> detectionRange e * 1.5)"
| "in_band e (EnemyCheck now pl) = True"

fun stays_in_band :: "enemy \<Rightarrow> enemy_call list \<Rightarrow> bool" where
  "stays_in_band e [] = True"
| "stays_in_band e (k # ks) = (in_band e k \<and> stays_in_band (enemy_apply e k) ks)"

text \<open>
  A game in which a player of health 0 stands on a health item, next to an enemy.
\<close>

definition dead_player_on_pickup :: game where
  "dead_player_on_pickup =
     \<lparr>g_player = (new_Player 610 340)\<lparr>health := 0\<rparr>,
      g_camera = new_Camera 800 600 2000 1000,
      g_enemies = [new_Enemy 620 350 ''patrol''],
      g_collectibles = [new_Collectible 620 350 ''health'' 10],
      score = 0, totalScore = 0, lives = 3, state = ''playing'', completed = False,
      timeLimit = None, startTime = 0\<rparr>"

text \<open>
  The same game a moment earlier: the player has 20 health left and overlaps the enemy
  as well as the health item.
\<close>

definition hit_on_pickup :: game where
  "hit_on_pickup = dead_player_on_pickup\<lparr>g_player := (new_Player 610 340)\<lparr>health := 20\<rparr>\<rparr>"

text \<open>An enemy at the origin, a coin of level 1 and the coin once collected.\<close>

definition sentry :: enemy where
  "sentry = new_Enemy 0 0 ''patrol''"

definition coin :: collectible where
  "coin = new_Collectible 120 460 ''coin'' 10"

definition coin_taken :: collectible where
  "coin_taken = coin\<lparr>collected := True, collectActive := True, collectTimer := 0,
                     collectScale := 1, collectAlpha := 1\<rparr>"

text \<open>
  A crumbling and a bouncy platform of level 3, and a player falling towards the second.
\<close>

definition crumbling_platform :: platform where
  "crumbling_platform = new_Platform 650 350 120 40 ''crumbling''"

definition bouncy_platform :: platform where
  "bouncy_platform = new_Platform 850 300 100 40 ''bouncy''"

definition faller :: player where
  "faller = (new_Player 860 240)\<lparr>velocityY := 14.2\<rparr>"

section \<open>Theorems\<close>

lemma checkCollision_touch:
  "pos_x r1 + width r1 \<le> pos_x r2 \<or> pos_x r2 + width r2 \<le> pos_x r1 \<or>
   pos_y r1 + height r1 \<le> pos_y r2 \<or> pos_y r2 + height r2 \<le> pos_y r1 \<Longrightarrow>
   \<not> checkCollision r1 r2"
  by (auto simp: checkCollision_def)

lemma Player_collide_no_overlap: "\<not> checkCollision p pf \<Longrightarrow> Player_collide p pf = p"
  by (simp add: Player_collide_def)

lemma health_apply_in_bounds:
  assumes "health_in_bounds p" and "0 \<le> health_arg c"
  shows "health_in_bounds (health_apply p c)"
proof (cases c)
  case (TakeDamage now d)
  with assms show ?thesis
    by (auto simp: health_in_bounds_def Player_takeDamage_def Let_def)
next
  case (Heal a)
  with assms show ?thesis
    by (auto simp: health_in_bounds_def heal_def)
qed

lemma health_apply_maxHealth: "maxHealth (health_apply p c) = maxHealth p"
  by (cases c) (auto simp: Player_takeDamage_def heal_def Let_def)

lemma foldl_no_overlap:
  "list_all (\<lambda>pf. \<not> checkCollision p pf) pfs \<Longrightarrow> foldl Player_collide p pfs = p"
  by (induction pfs) (simp_all add: Player_collide_def)

lemma checkCollision_isGrounded [simp]:
  "checkCollision (p\<lparr>isGrounded := b\<rparr>) pf = checkCollision p pf"
  by (simp add: checkCollision_def)

text \<open>
  Claim C9. \<open>checkCollision\<close> compares all four edges strictly, so two rectangles that
  only touch along an edge or at a corner (or lie apart) do not collide; in particular a
  player whose bottom edge is exactly the top of a platform does not collide with it, and
  \<open>Player.handlePlatformCollisions\<close> then resolves nothing: it moves nothing, changes no
  velocity and leaves the player not grounded.
\<close>

theorem edge_contact_is_no_collision:
  fixes r1 :: "'a rect_scheme" and r2 :: "'b rect_scheme" and p :: player
  shows "(pos_x r1 + width r1 \<le> pos_x r2 \<or> pos_x r2 + width r2 \<le> pos_x r1 \<or>
          pos_y r1 + height r1 \<le> pos_y r2 \<or> pos_y r2 + height r2 \<le> pos_y r1
            \<longrightarrow> \<not> checkCollision r1 r2) \<and>
         (pos_y p + height p = pos_y pf \<longrightarrow>
            \<not> checkCollision p pf \<and>
            Player_handlePlatformCollisions p [pf] = p\<lparr>isGrounded := False\<rparr>) \<and>
         (list_all (\<lambda>pf. \<not> checkCollision p pf) pfs \<longrightarrow>
            Player_handlePlatformCollisions p pfs = p\<lparr>isGrounded := False\<rparr>)"
proof (intro conjI impI)
  assume "pos_x r1 + width r1 \<le> pos_x r2 \<or> pos_x r2 + width r2 \<le> pos_x r1 \<or>
          pos_y r1 + height r1 \<le> pos_y r2 \<or> pos_y r2 + height r2 \<le> pos_y r1"
  then show "\<not> checkCollision r1 r2" by (rule checkCollision_touch)
next
  assume a: "pos_y p + height p = pos_y pf"
  then show n: "\<not> checkCollision p pf" by (simp add: checkCollision_def)
  then show "Player_handlePlatformCollisions p [pf] = p\<lparr>isGrounded := False\<rparr>"
    by (simp add: Player_handlePlatformCollisions_def Player_collide_def)
next
  assume "list_all (\<lambda>pf. \<not> checkCollision p pf) pfs"
  then have "list_all (\<lambda>pf. \<not> checkCollision (p\<lparr>isGrounded := False\<rparr>) pf) pfs" by simp
  then show "Player_handlePlatformCollisions p pfs = p\<lparr>isGrounded := False\<rparr>"
    unfolding Player_handlePlatformCollisions_def by (rule foldl_no_overlap)
qed

theorem edge_contact_is_no_collision_witness:
  "pos_y (new_Player 100 452) + height (new_Player 100 452)
     = pos_y (new_Platform 0 500 300 40 ''static'') \<and>
   \<not> checkCollision (new_Player 100 452) (new_Platform 0 500 300 40 ''static'') \<and>
   Player_handlePlatformCollisions (new_Player 100 452) [new_Platform 0 500 300 40 ''static'']
     = (new_Player 100 452)\<lparr>isGrounded := False\<rparr>"
  using edge_contact_is_no_collision
    [of "new_Player 100 452" "new_Platform 0 500 300 40 ''static''" "new_Player 100 452"
        "new_Platform 0 500 300 40 ''static''" "[new_Platform 0 500 300 40 ''static'']"]
  by (simp add: new_Player_def new_Platform_def)

lemma handleInput_inv [simp]:
  "invulnerable (handleInput p) = invulnerable p"
  "lastDamageTime (handleInput p) = lastDamageTime p"
  "invulnerabilityTime (handleInput p) = invulnerabilityTime p"
  by (simp_all add: handleInput_def jump_def Let_def)

lemma Player_updatePhysics_inv [simp]:
  "invulnerable (Player_updatePhysics p) = invulnerable p"
  "lastDamageTime (Player_updatePhysics p) = lastDamageTime p"
  "invulnerabilityTime (Player_updatePhysics p) = invulnerabilityTime p"
  by (simp_all add: Player_updatePhysics_def Let_def)

lemma Player_collide_inv [simp]:
  "invulnerable (Player_collide p pf) = invulnerable p"
  "lastDamageTime (Player_collide p pf) = lastDamageTime p"
  "invulnerabilityTime (Player_collide p pf) = invulnerabilityTime p"
  by (simp_all add: Player_collide_def Let_def)

lemma foldl_Player_collide_inv [simp]:
  "invulnerable (foldl Player_collide p pfs) = invulnerable p"
  "lastDamageTime (foldl Player_collide p pfs) = lastDamageTime p"
  "invulnerabilityTime (foldl Player_collide p pfs) = invulnerabilityTime p"
  by (induction pfs arbitrary: p) simp_all

lemma Player_handlePlatformCollisions_inv [simp]:
  "invulnerable (Player_handlePlatformCollisions p pfs) = invulnerable p"
  "lastDamageTime (Player_handlePlatformCollisions p pfs) = lastDamageTime p"
  "invulnerabilityTime (Player_handlePlatformCollisions p pfs) = invulnerabilityTime p"
  by (simp_all add: Player_handlePlatformCollisions_def)

lemma Player_updateAnimation_inv [simp]:
  "invulnerable (Player_updateAnimation dt p) = invulnerable p"
  "lastDamageTime (Player_updateAnimation dt p) = lastDamageTime p"
  "invulnerabilityTime (Player_updateAnimation dt p) = invulnerabilityTime p"
  by (simp_all add: Player_updateAnimation_def Let_def)

lemma constrainToWorld_invulnerable:
  "invulnerable (constrainToWorld t p) = invulnerable p"
  by (simp add: constrainToWorld_def Player_takeDamage_def Let_def)

lemma Player_update_invulnerable:
  "invulnerable p \<Longrightarrow>
   invulnerable (Player_update t dt pfs p) = (t - lastDamageTime p < invulnerabilityTime p)"
  by (auto simp: Player_update_def constrainToWorld_invulnerable updateInvulnerability_def)

text \<open>
  Claim C3. \<open>Player.takeDamage(d)\<close> on an invulnerable player changes nothing and
  reports no damage. Otherwise the health becomes \<open>max 0 (health - d)\<close>, and the
  invulnerable flag is set, with \<open>lastDamageTime\<close> the time of the hit, exactly when the
  health that results is positive. The window \<open>invulnerabilityTime\<close> is 1000 from the
  constructor and \<open>takeDamage\<close> does not change it; \<open>updateInvulnerability\<close>, and the
  whole \<open>Player.update\<close> of a frame that runs it, keep the flag exactly while less than
  1000 ms have passed since the hit.
\<close>

theorem takeDamage_invulnerability_window:
  "(invulnerable p \<longrightarrow> Player_takeDamage now d p = (False, p)) \<and>
   (\<not> invulnerable p \<longrightarrow>
      fst (Player_takeDamage now d p) \<and>
      health (snd (Player_takeDamage now d p)) = max 0 (health p - d) \<and>
      invulnerable (snd (Player_takeDamage now d p)) = (0 < health (snd (Player_takeDamage now d p))) \<and>
      (0 < health (snd (Player_takeDamage now d p)) \<longrightarrow>
         lastDamageTime (snd (Player_takeDamage now d p)) = now)) \<and>
   invulnerabilityTime (snd (Player_takeDamage now d p)) = invulnerabilityTime p \<and>
   invulnerabilityTime (new_Player x0 y0) = 1000 \<and>
   (\<not> invulnerable p \<and> d < health p \<and> invulnerabilityTime p = 1000 \<longrightarrow>
      invulnerable (updateInvulnerability t (snd (Player_takeDamage now d p))) = (t - now < 1000) \<and>
      invulnerable (Player_update t dt pfs (snd (Player_takeDamage now d p))) = (t - now < 1000))"
proof (intro conjI impI)
  assume "invulnerable p"
  then show "Player_takeDamage now d p = (False, p)" by (simp add: Player_takeDamage_def)
next
  assume a: "\<not> invulnerable p"
  then show "fst (Player_takeDamage now d p)" by (simp add: Player_takeDamage_def Let_def)
  from a show "health (snd (Player_takeDamage now d p)) = max 0 (health p - d)"
    by (simp add: Player_takeDamage_def Let_def)
  from a show "invulnerable (snd (Player_takeDamage now d p)) =
      (0 < health (snd (Player_takeDamage now d p)))"
    by (auto simp: Player_takeDamage_def Let_def)
  assume "0 < health (snd (Player_takeDamage now d p))"
  with a show "lastDamageTime (snd (Player_takeDamage now d p)) = now"
    by (simp add: Player_takeDamage_def Let_def split: if_splits)
next
  show "invulnerabilityTime (snd (Player_takeDamage now d p)) = invulnerabilityTime p"
    by (simp add: Player_takeDamage_def Let_def)
  show "invulnerabilityTime (new_Player x0 y0) = 1000" by (simp add: new_Player_def)
next
  assume a: "\<not> invulnerable p \<and> d < health p \<and> invulnerabilityTime p = 1000"
  define q where "q = snd (Player_takeDamage now d p)"
  from a have q: "invulnerable q" "lastDamageTime q = now" "invulnerabilityTime q = 1000"
    by (simp_all add: q_def Player_takeDamage_def Let_def)
  from q show "invulnerable (updateInvulnerability t (snd (Player_takeDamage now d p))) = (t - now < 1000)"
    unfolding q_def [symmetric] by (auto simp: updateInvulnerability_def)
  from q show "invulnerable (Player_update t dt pfs (snd (Player_takeDamage now d p))) = (t - now < 1000)"
    unfolding q_def [symmetric] by (simp add: Player_update_invulnerable)
qed

theorem takeDamage_invulnerability_window_witness:
  "\<not> invulnerable (new_Player 50 400) \<and> (30::real) < health (new_Player 50 400) \<and>
   health (snd (Player_takeDamage 5000 30 (new_Player 50 400))) = 70 \<and>
   invulnerable (snd (Player_takeDamage 5000 30 (new_Player 50 400))) \<and>
   lastDamageTime (snd (Player_takeDamage 5000 30 (new_Player 50 400))) = 5000 \<and>
   Player_takeDamage 5016 30 (snd (Player_takeDamage 5000 30 (new_Player 50 400)))
     = (False, snd (Player_takeDamage 5000 30 (new_Player 50 400))) \<and>
   invulnerable (updateInvulnerability 5999 (snd (Player_takeDamage 5000 30 (new_Player 50 400)))) \<and>
   \<not> invulnerable (updateInvulnerability 6000 (snd (Player_takeDamage 5000 30 (new_Player 50 400))))"
  using takeDamage_invulnerability_window [of "new_Player 50 400" 5000 30 50 400 5999 0 "[]"]
    takeDamage_invulnerability_window
      [of "snd (Player_takeDamage 5000 30 (new_Player 50 400))" 5016 30 50 400 6000 0 "[]"]
  by (simp add: new_Player_def Player_takeDamage_def updateInvulnerability_def Let_def)

lemma health_trace_in_bounds:
  "health_in_bounds p \<Longrightarrow> nonneg_args cs \<Longrightarrow> list_all health_in_bounds (health_trace p cs)"
proof (induction cs arbitrary: p)
  case Nil
  then show ?case by simp
next
  case (Cons c cs)
  from Cons.prems have "health_in_bounds (health_apply p c)"
    by (simp add: nonneg_args_def health_apply_in_bounds)
  moreover from Cons.prems have "nonneg_args cs" by (simp add: nonneg_args_def)
  ultimately show ?case using Cons.IH by simp
qed

text \<open>
  Claim C4. The new player has \<open>0 \<le> health \<le> maxHealth\<close>, and from any player that
  has, every call of a sequence of \<open>takeDamage\<close> and \<open>heal\<close> calls with non-negative
  arguments leaves a player that has.
\<close>

theorem health_bounds_invariant:
  "health_in_bounds (new_Player x0 y0) \<and>
   (health_in_bounds p \<and> nonneg_args cs \<longrightarrow> list_all health_in_bounds (health_trace p cs))"
  by (simp add: health_trace_in_bounds) (simp add: health_in_bounds_def new_Player_def)

theorem health_bounds_invariant_witness:
  "health_in_bounds (new_Player 50 400) \<and>
   nonneg_args [TakeDamage 0 130, Heal 25, TakeDamage 16 30, Heal 200, TakeDamage 32 30, TakeDamage 48 30] \<and>
   list_all health_in_bounds
     (health_trace (new_Player 50 400)
        [TakeDamage 0 130, Heal 25, TakeDamage 16 30, Heal 200, TakeDamage 32 30, TakeDamage 48 30]) \<and>
   map health (health_trace (new_Player 50 400)
        [TakeDamage 0 130, Heal 25, TakeDamage 16 30, Heal 200, TakeDamage 32 30, TakeDamage 48 30])
     = [0, 25, 0, 100, 70, 70]"
  using health_bounds_invariant [of 50 400 "new_Player 50 400"
      "[TakeDamage 0 130, Heal 25, TakeDamage 16 30, Heal 200, TakeDamage 32 30, TakeDamage 48 30]"]
  by (simp add: new_Player_def nonneg_args_def health_in_bounds_def Player_takeDamage_def
        heal_def Let_def)

lemma enemy_collisions_dead:
  "isDead p \<Longrightarrow> enemy_collisions now es p cam = (es, p, cam)"
  by (induction es) (simp_all add: Enemy_checkPlayerCollision_def)

lemma checkGameConditions_alive:
  "\<not> isDead (g_player g) \<Longrightarrow>
   lives (checkGameConditions now g) = lives g \<and>
   g_player (checkGameConditions now g) = g_player g"
  by (simp add: checkGameConditions_def levelComplete_def gameOver_def Let_def)

lemma checkGameConditions_dead:
  "isDead (g_player g) \<Longrightarrow> lives (checkGameConditions now g) = lives g - 1"
  by (simp add: checkGameConditions_def levelComplete_def gameOver_def Let_def)

lemma hit_first:
  "enemy_collisions 5000 (g_enemies hit_on_pickup) (g_player hit_on_pickup) cam
     = ([new_Enemy 620 350 ''patrol''], (new_Player 610 340)\<lparr>health := 0\<rparr>, startShake 5 200 cam)"
  by (simp add: hit_on_pickup_def dead_player_on_pickup_def Enemy_checkPlayerCollision_def
        Player_takeDamage_def isDead_def checkCollision_def new_Enemy_def new_Player_def Let_def)

lemma hit_then_healed:
  "health (g_player (handleCollisions 5000 hit_on_pickup)) = 25 \<and>
   lives (checkGameConditions 5000 (handleCollisions 5000 hit_on_pickup)) = 3"
proof -
  have c: "g_collectibles hit_on_pickup = [new_Collectible 620 350 ''health'' 10]"
    "lives hit_on_pickup = 3"
    by (simp_all add: hit_on_pickup_def dead_player_on_pickup_def)
  have h: "Collectible_checkPlayerCollision (new_Collectible 620 350 ''health'' 10)
             (Some ((new_Player 610 340)\<lparr>health := 0\<rparr>))
           = (Some \<lparr>collection_type = ''health'', collection_value = 25,
                     collection_effect = ''health''\<rparr>,
              snd (collect (new_Collectible 620 350 ''health'' 10)))"
    by (simp add: Collectible_checkPlayerCollision_def collect_def new_Collectible_def
          updateTypeProperties_def Collectible_types_def getCollectionEffect_def
          checkCollision_def new_Player_def Let_def)
  have p: "g_player (handleCollisions 5000 hit_on_pickup)
             = heal 25 ((new_Player 610 340)\<lparr>health := 0\<rparr>)"
    "lives (handleCollisions 5000 hit_on_pickup) = 3"
    by (simp_all add: handleCollisions_def hit_first c h handleCollectibleCollection_def)
  have a: "health (heal 25 ((new_Player 610 340)\<lparr>health := 0\<rparr>)) = 25"
    by (simp add: heal_def new_Player_def)
  then have "\<not> isDead (g_player (handleCollisions 5000 hit_on_pickup))"
    by (simp add: p isDead_def)
  then show ?thesis using a by (simp add: checkGameConditions_alive p)
qed

text \<open>
  Claim C10. \<open>Player.heal\<close> has no guard for a dead player: with a positive amount it
  takes a player of health 0 (for whom \<open>isDead()\<close> holds) to the positive health
  \<open>min maxHealth amount\<close>, and \<open>isDead()\<close> no longer holds. In the playing update the
  collectibles are collected in \<open>handleCollisions\<close>, before \<open>checkGameConditions\<close> looks
  at the player's death: a dead player that overlaps an uncollected health item of
  positive value is healed there, and the check that follows takes no life, where the
  same check without the collection takes one.
\<close>

theorem heal_revives_dead_player:
  "(0 < a \<and> health p = 0 \<and> 0 < maxHealth p \<longrightarrow>
      isDead p \<and> health (heal a p) = min (maxHealth p) a \<and> 0 < health (heal a p) \<and>
      \<not> isDead (heal a p)) \<and>
   (health (g_player g) = 0 \<and> 0 < maxHealth (g_player g) \<and> g_collectibles g = [c] \<and>
    \<not> collected c \<and> collectibleType c = ''health'' \<and> 0 < item_value c \<and>
    checkCollision c (g_player g) \<longrightarrow>
      g_player (handleCollisions now g) = heal (item_value c) (g_player g) \<and>
      \<not> isDead (g_player (handleCollisions now g)) \<and>
      lives (checkGameConditions now (handleCollisions now g)) = lives g \<and>
      lives (checkGameConditions now g) = lives g - 1)"
proof (intro conjI impI)
  assume a: "0 < a \<and> health p = 0 \<and> 0 < maxHealth p"
  then show "isDead p" by (simp add: isDead_def)
  from a show "health (heal a p) = min (maxHealth p) a" by (simp add: heal_def)
  from a show "0 < health (heal a p)" by (simp add: heal_def)
  from a show "\<not> isDead (heal a p)" by (auto simp: heal_def isDead_def)
next
  assume a: "health (g_player g) = 0 \<and> 0 < maxHealth (g_player g) \<and> g_collectibles g = [c] \<and>
    \<not> collected c \<and> collectibleType c = ''health'' \<and> 0 < item_value c \<and>
    checkCollision c (g_player g)"
  then have dead: "isDead (g_player g)" by (simp add: isDead_def)
  from a dead show p': "g_player (handleCollisions now g) = heal (item_value c) (g_player g)"
    by (simp add: handleCollisions_def enemy_collisions_dead
          Collectible_checkPlayerCollision_def collect_def Let_def getCollectionEffect_def
          handleCollectibleCollection_def)
  from a show alive: "\<not> isDead (g_player (handleCollisions now g))"
    unfolding p' by (auto simp: heal_def isDead_def)
  from alive show "lives (checkGameConditions now (handleCollisions now g)) = lives g"
    using a dead
    by (simp add: checkGameConditions_alive)
       (simp add: handleCollisions_def enemy_collisions_dead
          Collectible_checkPlayerCollision_def collect_def Let_def getCollectionEffect_def
          handleCollectibleCollection_def)
  from dead show "lives (checkGameConditions now g) = lives g - 1"
    by (rule checkGameConditions_dead)
qed

theorem heal_revives_dead_player_witness:
  "health (g_player dead_player_on_pickup) = 0 \<and>
   isDead (g_player dead_player_on_pickup) \<and>
   checkCollision (new_Collectible 620 350 ''health'' 10) (g_player dead_player_on_pickup) \<and>
   health (g_player (handleCollisions 5000 dead_player_on_pickup)) = 25 \<and>
   \<not> isDead (g_player (handleCollisions 5000 dead_player_on_pickup)) \<and>
   lives (checkGameConditions 5000 (handleCollisions 5000 dead_player_on_pickup)) = 3 \<and>
   lives (checkGameConditions 5000 dead_player_on_pickup) = 2 \<and>
   health (fst (snd (enemy_collisions 5000 (g_enemies hit_on_pickup) (g_player hit_on_pickup)
                       (g_camera hit_on_pickup)))) = 0 \<and>
   health (g_player (handleCollisions 5000 hit_on_pickup)) = 25 \<and>
   lives (checkGameConditions 5000 (handleCollisions 5000 hit_on_pickup)) = 3"
  using heal_revives_dead_player
    [of 25 "g_player dead_player_on_pickup" dead_player_on_pickup
        "new_Collectible 620 350 ''health'' 10" 5000]
    hit_then_healed
  by (simp add: hit_first dead_player_on_pickup_def new_Player_def new_Collectible_def
        updateTypeProperties_def Collectible_types_def checkCollision_def heal_def isDead_def)

text \<open>
  Claim C8. In \<open>Camera.updateTargetFollowing\<close> the desired x with the lookahead added is
  overwritten by both branches of the deadzone computation before it is read: the update
  equals the update with the lookahead statement deleted, and two targets that differ
  only in \<open>velocityX\<close> (any two values, or none) give the same camera.
\<close>

theorem lookahead_is_dead_code:
  "updateTargetFollowing tg cam = updateTargetFollowing_without_lookahead tg cam \<and>
   updateTargetFollowing (tg\<lparr>target_velocityX := v\<rparr>) cam
     = updateTargetFollowing (tg\<lparr>target_velocityX := v'\<rparr>) cam"
  by (simp add: updateTargetFollowing_def updateTargetFollowing_without_lookahead_def Let_def)

lemma new_Enemy_inv: "enemy_inv (new_Enemy x0 y0 ty)"
  by (simp add: enemy_inv_def new_Enemy_def)

lemma changeDirection_fields [simp]:
  "health (changeDirection e) = health e" "maxHealth (changeDirection e) = maxHealth e"
  "damage (changeDirection e) = damage e" "isChasing (changeDirection e) = isChasing e"
  "detectionRange (changeDirection e) = detectionRange e"
  by (simp_all add: changeDirection_def)

lemma patrol_fields [simp]:
  "health (patrol e) = health e" "maxHealth (patrol e) = maxHealth e"
  "damage (patrol e) = damage e" "isChasing (patrol e) = isChasing e"
  "detectionRange (patrol e) = detectionRange e"
  by (simp_all add: patrol_def Let_def)

lemma chase_fields [simp]:
  "health (chase p e) = health e" "maxHealth (chase p e) = maxHealth e"
  "damage (chase p e) = damage e" "isChasing (chase p e) = isChasing e"
  "detectionRange (chase p e) = detectionRange e"
  by (simp_all add: chase_def Let_def)

lemma updateAI_fields [simp]:
  "health (updateAI pl e) = health e" "maxHealth (updateAI pl e) = maxHealth e"
  "damage (updateAI pl e) = damage e" "detectionRange (updateAI pl e) = detectionRange e"
  by (simp_all add: updateAI_def Let_def split: option.splits)

lemma Enemy_updatePhysics_fields [simp]:
  "health (Enemy_updatePhysics e) = health e" "maxHealth (Enemy_updatePhysics e) = maxHealth e"
  "damage (Enemy_updatePhysics e) = damage e" "isChasing (Enemy_updatePhysics e) = isChasing e"
  "detectionRange (Enemy_updatePhysics e) = detectionRange e"
  by (simp_all add: Enemy_updatePhysics_def Let_def)

lemma Enemy_collide_fields [simp]:
  "health (fst (Enemy_collide eh pf)) = health (fst eh)"
  "maxHealth (fst (Enemy_collide eh pf)) = maxHealth (fst eh)"
  "damage (fst (Enemy_collide eh pf)) = damage (fst eh)"
  "isChasing (fst (Enemy_collide eh pf)) = isChasing (fst eh)"
  "detectionRange (fst (Enemy_collide eh pf)) = detectionRange (fst eh)"
  by (simp_all add: Enemy_collide_def Let_def)

lemma foldl_Enemy_collide_fields [simp]:
  "health (fst (foldl Enemy_collide eh pfs)) = health (fst eh)"
  "maxHealth (fst (foldl Enemy_collide eh pfs)) = maxHealth (fst eh)"
  "damage (fst (foldl Enemy_collide eh pfs)) = damage (fst eh)"
  "isChasing (fst (foldl Enemy_collide eh pfs)) = isChasing (fst eh)"
  "detectionRange (fst (foldl Enemy_collide eh pfs)) = detectionRange (fst eh)"
  by (induction pfs arbitrary: eh) simp_all

lemma checkForEdges_fields [simp]:
  "health (checkForEdges pfs e) = health e" "maxHealth (checkForEdges pfs e) = maxHealth e"
  "damage (checkForEdges pfs e) = damage e" "isChasing (checkForEdges pfs e) = isChasing e"
  "detectionRange (checkForEdges pfs e) = detectionRange e"
  by (simp_all add: checkForEdges_def Let_def)

lemma Enemy_handlePlatformCollisions_fields [simp]:
  "health (Enemy_handlePlatformCollisions pfs e) = health e"
  "maxHealth (Enemy_handlePlatformCollisions pfs e) = maxHealth e"
  "damage (Enemy_handlePlatformCollisions pfs e) = damage e"
  "isChasing (Enemy_handlePlatformCollisions pfs e) = isChasing e"
  "detectionRange (Enemy_handlePlatformCollisions pfs e) = detectionRange e"
  by (simp_all add: Enemy_handlePlatformCollisions_def Let_def)

lemma Enemy_updateAnimation_fields [simp]:
  "health (Enemy_updateAnimation dt e) = health e"
  "maxHealth (Enemy_updateAnimation dt e) = maxHealth e"
  "damage (Enemy_updateAnimation dt e) = damage e"
  "isChasing (Enemy_updateAnimation dt e) = isChasing e"
  "detectionRange (Enemy_updateAnimation dt e) = detectionRange e"
  by (simp_all add: Enemy_updateAnimation_def Let_def)

lemma updateTurnCooldown_fields [simp]:
  "health (updateTurnCooldown dt e) = health e"
  "maxHealth (updateTurnCooldown dt e) = maxHealth e"
  "damage (updateTurnCooldown dt e) = damage e"
  "isChasing (updateTurnCooldown dt e) = isChasing e"
  "detectionRange (updateTurnCooldown dt e) = detectionRange e"
  by (simp_all add: updateTurnCooldown_def Let_def)

lemma updateDeath_fields [simp]:
  "health (updateDeath dt e) = health e" "maxHealth (updateDeath dt e) = maxHealth e"
  "damage (updateDeath dt e) = damage e" "isChasing (updateDeath dt e) = isChasing e"
  "detectionRange (updateDeath dt e) = detectionRange e"
  by (simp_all add: updateDeath_def Let_def)

lemma Enemy_update_fields [simp]:
  "health (Enemy_update dt pfs pl e) = health e"
  "maxHealth (Enemy_update dt pfs pl e) = maxHealth e"
  "damage (Enemy_update dt pfs pl e) = damage e"
  "detectionRange (Enemy_update dt pfs pl e) = detectionRange e"
  by (simp_all add: Enemy_update_def)

lemma Enemy_checkPlayerCollision_fields [simp]:
  "maxHealth (fst (snd (Enemy_checkPlayerCollision now e pl))) = maxHealth e"
  "damage (fst (snd (Enemy_checkPlayerCollision now e pl))) = damage e"
  "isChasing (fst (snd (Enemy_checkPlayerCollision now e pl))) = isChasing e"
  "detectionRange (fst (snd (Enemy_checkPlayerCollision now e pl))) = detectionRange e"
  by (simp_all add: Enemy_checkPlayerCollision_def Enemy_takeDamage_def die_def Let_def
        split: option.splits)

lemma Enemy_checkPlayerCollision_health:
  "enemy_inv e \<Longrightarrow> health (fst (snd (Enemy_checkPlayerCollision now e pl))) \<le> maxHealth e"
  by (auto simp: Enemy_checkPlayerCollision_def Enemy_takeDamage_def die_def Let_def enemy_inv_def
        split: option.splits)

lemma enemy_apply_inv: "enemy_inv e \<Longrightarrow> enemy_inv (enemy_apply e k)"
proof (cases k)
  case (EnemyUpdate dt pfs pl)
  assume "enemy_inv e"
  with EnemyUpdate show ?thesis by (simp add: enemy_inv_def)
next
  case (EnemyCheck now pl)
  assume a: "enemy_inv e"
  from Enemy_checkPlayerCollision_health [OF a, of now pl] a EnemyCheck
  show ?thesis by (simp add: enemy_inv_def)
qed

lemma enemy_run_inv: "enemy_inv e \<Longrightarrow> enemy_inv (enemy_run e ks)"
  by (induction ks arbitrary: e) (simp_all add: enemy_apply_inv)

text \<open>
  Claim C5. The enemies of the program satisfy \<open>enemy_inv\<close>: the constructor sets
  \<open>maxHealth = 50\<close>, \<open>damage = 20\<close> and \<open>health = 50\<close>, and every update and collision
  check keeps it. For such an enemy that is alive, and a player that is not dead and
  overlaps it: when the player's bottom edge is at most the enemy's top plus 10 and the
  player moves down (\<open>velocityY > 0\<close>), the enemy dies, the player's \<open>velocityY\<close>
  becomes -8, the player's health is unchanged and the call returns false; in every other
  case the call is \<open>player.takeDamage(20)\<close>, the enemy unchanged, and so does nothing
  to an invulnerable player.
\<close>

theorem enemy_player_collision:
  assumes "enemy_inv e" and "isAlive e" and "\<not> isDead p" and "checkCollision e p"
  shows "enemy_inv (new_Enemy x0 y0 ty) \<and> enemy_inv (enemy_run e ks) \<and>
    (pos_y p + height p \<le> pos_y e + 10 \<and> 0 < velocityY p \<longrightarrow>
       Enemy_checkPlayerCollision now e (Some p)
         = (False, die (e\<lparr>health := 0\<rparr>), Some (p\<lparr>velocityY := - 8\<rparr>)) \<and>
       \<not> isAlive (die (e\<lparr>health := 0\<rparr>)) \<and>
       health (p\<lparr>velocityY := - 8\<rparr>) = health p) \<and>
    (\<not> (pos_y p + height p \<le> pos_y e + 10 \<and> 0 < velocityY p) \<longrightarrow>
       Enemy_checkPlayerCollision now e (Some p)
         = (fst (Player_takeDamage now 20 p), e, Some (snd (Player_takeDamage now 20 p))) \<and>
       (invulnerable p \<longrightarrow> Enemy_checkPlayerCollision now e (Some p) = (False, e, Some p)))"
proof (intro conjI impI)
  show "enemy_inv (new_Enemy x0 y0 ty)" by (rule new_Enemy_inv)
  show "enemy_inv (enemy_run e ks)" using assms(1) by (rule enemy_run_inv)
next
  assume stomp: "pos_y p + height p \<le> pos_y e + 10 \<and> 0 < velocityY p"
  from assms(1) have lethal: "max 0 (health e - maxHealth e) = 0"
    by (simp add: enemy_inv_def)
  from assms(1) have le: "health e \<le> maxHealth e" by (simp add: enemy_inv_def)
  from assms(2-4) stomp le show "Enemy_checkPlayerCollision now e (Some p)
         = (False, die (e\<lparr>health := 0\<rparr>), Some (p\<lparr>velocityY := - 8\<rparr>))"
    by (simp add: Enemy_checkPlayerCollision_def Enemy_takeDamage_def Let_def lethal)
  show "\<not> isAlive (die (e\<lparr>health := 0\<rparr>))" by (simp add: die_def)
  show "health (p\<lparr>velocityY := - 8\<rparr>) = health p" by simp
next
  assume n: "\<not> (pos_y p + height p \<le> pos_y e + 10 \<and> 0 < velocityY p)"
  with assms show r: "Enemy_checkPlayerCollision now e (Some p)
         = (fst (Player_takeDamage now 20 p), e, Some (snd (Player_takeDamage now 20 p)))"
    by (auto simp: Enemy_checkPlayerCollision_def Let_def enemy_inv_def)
  assume "invulnerable p"
  then show "Enemy_checkPlayerCollision now e (Some p) = (False, e, Some p)"
    unfolding r by (simp add: Player_takeDamage_def)
qed

theorem enemy_player_collision_witness:
  "enemy_inv (new_Enemy 380 410 ''patrol'') \<and> isAlive (new_Enemy 380 410 ''patrol'') \<and>
   \<not> isDead ((new_Player 376 365)\<lparr>velocityY := 6\<rparr>) \<and>
   checkCollision (new_Enemy 380 410 ''patrol'') ((new_Player 376 365)\<lparr>velocityY := 6\<rparr>) \<and>
   Enemy_checkPlayerCollision 5000 (new_Enemy 380 410 ''patrol'')
       (Some ((new_Player 376 365)\<lparr>velocityY := 6\<rparr>))
     = (False, die ((new_Enemy 380 410 ''patrol'')\<lparr>health := 0\<rparr>),
        Some ((new_Player 376 365)\<lparr>velocityY := - 8\<rparr>)) \<and>
   checkCollision (new_Enemy 380 410 ''patrol'') (new_Player 376 380) \<and>
   Enemy_checkPlayerCollision 5000 (new_Enemy 380 410 ''patrol'') (Some (new_Player 376 380))
     = (True, new_Enemy 380 410 ''patrol'',
        Some ((new_Player 376 380)\<lparr>health := 80, invulnerable := True,
                                     lastDamageTime := 5000\<rparr>))"
  using enemy_player_collision
      [of "new_Enemy 380 410 ''patrol''" "(new_Player 376 365)\<lparr>velocityY := 6\<rparr>"
          380 410 "''patrol''" "[]" 5000]
    enemy_player_collision
      [of "new_Enemy 380 410 ''patrol''" "new_Player 376 380" 380 410 "''patrol''" "[]" 5000]
  by (simp add: enemy_inv_def new_Enemy_def new_Player_def isDead_def checkCollision_def
        Player_takeDamage_def Let_def)

lemma distanceToPlayer_nonneg: "0 \<le> distanceToPlayer e p"
  by (simp add: distanceToPlayer_def distance_def)

lemma updateAI_isChasing:
  "\<not> isDead p \<Longrightarrow>
   isChasing (updateAI (Some p) e) =
     (distanceToPlayer e p \<le> detectionRange e \<or>
      isChasing e \<and> distanceToPlayer e p \<le> detectionRange e * 1.5)"
  using distanceToPlayer_nonneg [of e p]
  by (auto simp: updateAI_def Let_def)

lemma Enemy_update_isChasing:
  "Enemy_update dt pfs pl e = e' \<Longrightarrow> isAlive e \<Longrightarrow>
   isChasing e' = isChasing (updateAI pl e)"
  by (auto simp: Enemy_update_def)

lemma Enemy_update_dead_isChasing:
  "\<not> isAlive e \<Longrightarrow> isChasing (Enemy_update dt pfs pl e) = isChasing e"
  by (simp add: Enemy_update_def)

lemma enemy_apply_in_band:
  "isChasing e \<Longrightarrow> in_band e k \<Longrightarrow> isChasing (enemy_apply e k)"
proof (cases k)
  case (EnemyUpdate dt pfs pl)
  assume c: "isChasing e" and b: "in_band e k"
  from b EnemyUpdate obtain p where p: "pl = Some p" "\<not> isDead p"
    "distanceToPlayer e p \<le> detectionRange e * 1.5"
    by (auto split: option.splits)
  show ?thesis
  proof (cases "isAlive e")
    case True
    with c p EnemyUpdate show ?thesis
      by (simp add: Enemy_update_isChasing [OF refl] updateAI_isChasing)
  next
    case False
    with c EnemyUpdate show ?thesis by (simp add: Enemy_update_dead_isChasing)
  qed
next
  case (EnemyCheck now pl)
  assume "isChasing e"
  with EnemyCheck show ?thesis by simp
qed

lemma enemy_run_in_band:
  "isChasing e \<Longrightarrow> stays_in_band e ks \<Longrightarrow> isChasing (enemy_run e ks)"
  by (induction ks arbitrary: e) (simp_all add: enemy_apply_in_band)

lemma enemy_apply_detectionRange: "detectionRange (enemy_apply e k) = detectionRange e"
  by (cases k) simp_all

lemma enemy_run_detectionRange: "detectionRange (enemy_run e ks) = detectionRange e"
  by (induction ks arbitrary: e) (simp_all add: enemy_apply_detectionRange)

text \<open>
  Claim C6. Against a live player, \<open>updateAI\<close> takes a patrolling enemy to the chase
  exactly when the distance between the centres is at most \<open>detectionRange\<close>, and keeps
  a chasing enemy in the chase exactly when that distance is at most
  \<open>detectionRange * 1.5\<close>; the whole \<open>Enemy.update\<close> of a live enemy leaves the state
  \<open>updateAI\<close> chose. Over any sequence of updates and collision checks the range does
  not change, and a chasing enemy whose every update sees a live player within
  \<open>detectionRange * 1.5\<close> is still chasing at the end.
\<close>

theorem chase_hysteresis:
  "(\<not> isDead p \<longrightarrow>
      (\<not> isChasing e \<longrightarrow>
         isChasing (updateAI (Some p) e) = (distanceToPlayer e p \<le> detectionRange e)) \<and>
      (isChasing e \<longrightarrow>
         isChasing (updateAI (Some p) e) = (distanceToPlayer e p \<le> detectionRange e * 1.5)) \<and>
      (isAlive e \<longrightarrow>
         isChasing (Enemy_update deltaTime platforms (Some p) e)
           = isChasing (updateAI (Some p) e))) \<and>
   detectionRange (enemy_run e ks) = detectionRange e \<and>
   (isChasing e \<and> stays_in_band e ks \<longrightarrow> isChasing (enemy_run e ks))"
proof (intro conjI impI)
  assume a: "\<not> isDead p" and "\<not> isChasing e"
  then show "isChasing (updateAI (Some p) e) = (distanceToPlayer e p \<le> detectionRange e)"
    by (simp add: updateAI_isChasing)
next
  assume a: "\<not> isDead p" and c: "isChasing e"
  have "distanceToPlayer e p \<le> detectionRange e \<Longrightarrow>
        distanceToPlayer e p \<le> detectionRange e * 1.5"
    using distanceToPlayer_nonneg [of e p] by simp
  with a c show
    "isChasing (updateAI (Some p) e) = (distanceToPlayer e p \<le> detectionRange e * 1.5)"
    by (auto simp: updateAI_isChasing)
next
  assume "isAlive e"
  then show "isChasing (Enemy_update deltaTime platforms (Some p) e)
           = isChasing (updateAI (Some p) e)"
    by (simp add: Enemy_update_isChasing [OF refl])
next
  show "detectionRange (enemy_run e ks) = detectionRange e" by (rule enemy_run_detectionRange)
next
  assume "isChasing e \<and> stays_in_band e ks"
  then show "isChasing (enemy_run e ks)" by (simp add: enemy_run_in_band)
qed

lemma distance_level: "distance x1 y1 x2 y1 = \<bar>x2 - x1\<bar>"
  by (simp add: distance_def)

theorem chase_hysteresis_witness:
  "\<not> isDead (new_Player 148 (- 8)) \<and> \<not> isChasing sentry \<and> detectionRange sentry = 150 \<and>
   distanceToPlayer sentry (new_Player 148 (- 8)) = 150 \<and>
   isChasing (updateAI (Some (new_Player 148 (- 8))) sentry) \<and>
   distanceToPlayer (sentry\<lparr>isChasing := True\<rparr>) (new_Player 208 (- 8)) = 210 \<and>
   isChasing (updateAI (Some (new_Player 208 (- 8))) (sentry\<lparr>isChasing := True\<rparr>)) \<and>
   distanceToPlayer (sentry\<lparr>isChasing := True\<rparr>) (new_Player 238 (- 8)) = 240 \<and>
   \<not> isChasing (updateAI (Some (new_Player 238 (- 8))) (sentry\<lparr>isChasing := True\<rparr>)) \<and>
   stays_in_band (sentry\<lparr>isChasing := True\<rparr>) [EnemyUpdate 16 [] (Some (new_Player 208 (- 8)))] \<and>
   isChasing (enemy_run (sentry\<lparr>isChasing := True\<rparr>)
                [EnemyUpdate 16 [] (Some (new_Player 208 (- 8)))])"
proof -
  have live: "\<not> isDead (new_Player x0 y0)" for x0 y0
    by (simp add: isDead_def new_Player_def)
  have s: "\<not> isChasing sentry" "detectionRange sentry = 150"
    by (simp_all add: sentry_def new_Enemy_def)
  have d: "distanceToPlayer (sentry\<lparr>isChasing := b\<rparr>) (new_Player x0 (- 8)) = \<bar>x0 + 2\<bar>" for b x0
    by (simp add: distanceToPlayer_def sentry_def new_Enemy_def new_Player_def distance_level)
  have d0: "distanceToPlayer sentry (new_Player x0 (- 8)) = \<bar>x0 + 2\<bar>" for x0
    by (simp add: distanceToPlayer_def sentry_def new_Enemy_def new_Player_def distance_level)
  show ?thesis
    using chase_hysteresis [of "new_Player 148 (- 8)" sentry 16 "[]" "[]"]
      chase_hysteresis [of "new_Player 208 (- 8)" "sentry\<lparr>isChasing := True\<rparr>" 16 "[]"
        "[EnemyUpdate 16 [] (Some (new_Player 208 (- 8)))]"]
      chase_hysteresis [of "new_Player 238 (- 8)" "sentry\<lparr>isChasing := True\<rparr>" 16 "[]" "[]"]
    by (simp add: live s d d0)
qed

lemma Collectible_updateAnimation_collected [simp]:
  "collected (Collectible_updateAnimation dt c) = collected c"
  "collectActive (Collectible_updateAnimation dt c) = collectActive c"
  by (simp_all add: Collectible_updateAnimation_def Let_def split: option.splits)

lemma updateBobbing_collected [simp]:
  "collected (updateBobbing c) = collected c"
  "collectActive (updateBobbing c) = collectActive c"
  by (simp_all add: updateBobbing_def Let_def)

lemma updateRotation_collected [simp]:
  "collected (updateRotation c) = collected c"
  "collectActive (updateRotation c) = collectActive c"
  by (simp_all add: updateRotation_def Let_def)

lemma updateGlow_collected [simp]:
  "collected (updateGlow c) = collected c"
  "collectActive (updateGlow c) = collectActive c"
  by (simp_all add: updateGlow_def Let_def)

lemma updateMagneticAttraction_collected [simp]:
  "collected (updateMagneticAttraction p c) = collected c"
  by (simp add: updateMagneticAttraction_def Let_def)

lemma updateCollectionAnimation_collected [simp]:
  "collected (updateCollectionAnimation dt c) = collected c"
  by (simp add: updateCollectionAnimation_def Let_def)

lemma Collectible_update_collected [simp]:
  "collected (Collectible_update dt pl c) = collected c"
  by (cases pl) (simp_all add: Collectible_update_def Let_def)

lemma collect_collected: "collected (snd (collect c))"
  by (simp add: collect_def Let_def)

lemma collect_again: "collected c \<Longrightarrow> collect c = (None, c)"
  by (simp add: collect_def)

lemma check_collected: "collected c \<Longrightarrow> Collectible_checkPlayerCollision c pl = (None, c)"
  by (cases pl) (simp_all add: Collectible_checkPlayerCollision_def)

lemma check_report:
  "fst (Collectible_checkPlayerCollision c pl) \<noteq> None \<Longrightarrow>
   collected (snd (Collectible_checkPlayerCollision c pl))"
  by (cases pl) (simp_all add: Collectible_checkPlayerCollision_def collect_collected split: if_splits)

lemma item_apply_collected:
  "collected c \<Longrightarrow> fst (item_apply c k) = None \<and> collected (snd (item_apply c k))"
  by (cases k) (simp_all add: check_collected collect_again)

lemma item_apply_report:
  "fst (item_apply c k) \<noteq> None \<Longrightarrow> collected (snd (item_apply c k))"
  by (cases k) (simp_all add: check_report collect_collected)

lemma reports_Cons: "reports (r # rs) = (if r = None then 0 else 1) + reports rs"
  by (simp add: reports_def)

lemma item_run_collected:
  "collected c \<Longrightarrow> reports (fst (item_run c ks)) = 0 \<and> collected (snd (item_run c ks))"
proof (induction ks arbitrary: c)
  case Nil
  then show ?case by (simp add: reports_def)
next
  case (Cons k ks)
  from item_apply_collected [OF Cons.prems, of k] Cons.IH [of "snd (item_apply c k)"]
  show ?case by (simp add: reports_Cons)
qed

lemma item_run_reports: "reports (fst (item_run c ks)) \<le> 1"
proof (induction ks arbitrary: c)
  case Nil
  show ?case by (simp add: reports_def)
next
  case (Cons k ks)
  show ?case
  proof (cases "fst (item_apply c k) = None")
    case True
    with Cons.IH [of "snd (item_apply c k)"] show ?thesis by (simp add: reports_Cons)
  next
    case False
    then have "collected (snd (item_apply c k))" by (rule item_apply_report)
    then have "reports (fst (item_run (snd (item_apply c k)) ks)) = 0"
      by (simp add: item_run_collected)
    with False show ?thesis by (simp add: reports_Cons)
  qed
qed

text \<open>
  Claim C7. \<open>Collectible.checkPlayerCollision\<close> on an uncollected item that overlaps the
  player (whatever the player's position within the overlap and velocity) marks the item
  collected and returns its type, value and effect; without overlap it returns
  \<open>null\<close> and changes nothing. On a collected item it returns \<open>null\<close> for every
  player. Over any sequence of updates, collision checks and \<open>collect()\<close> calls (all
  the methods of the item but \<open>reset()\<close>) at most one call returns a result, and from
  a collected item none does and the item stays collected.
\<close>

theorem collectible_reports_once:
  "(\<not> collected c \<and> checkCollision c p \<longrightarrow>
      Collectible_checkPlayerCollision c (Some p)
        = (Some \<lparr>collection_type = collectibleType c, collection_value = item_value c,
                  collection_effect = getCollectionEffect c\<rparr>,
           c\<lparr>collected := True, collectActive := True, collectTimer := 0, collectScale := 1,
              collectAlpha := 1\<rparr>)) \<and>
   (\<not> checkCollision c p \<longrightarrow> Collectible_checkPlayerCollision c (Some p) = (None, c)) \<and>
   (collected c \<longrightarrow>
      Collectible_checkPlayerCollision c pl = (None, c) \<and>
      reports (fst (item_run c ks)) = 0 \<and> collected (snd (item_run c ks))) \<and>
   reports (fst (item_run c ks)) \<le> 1"
proof (intro conjI impI)
  assume "\<not> collected c \<and> checkCollision c p"
  then show "Collectible_checkPlayerCollision c (Some p)
        = (Some \<lparr>collection_type = collectibleType c, collection_value = item_value c,
                  collection_effect = getCollectionEffect c\<rparr>,
           c\<lparr>collected := True, collectActive := True, collectTimer := 0, collectScale := 1,
              collectAlpha := 1\<rparr>)"
    by (simp add: Collectible_checkPlayerCollision_def collect_def Let_def
          getCollectionEffect_def)
next
  assume "\<not> checkCollision c p"
  then show "Collectible_checkPlayerCollision c (Some p) = (None, c)"
    by (simp add: Collectible_checkPlayerCollision_def)
next
  assume a: "collected c"
  then show "Collectible_checkPlayerCollision c pl = (None, c)"
    by (simp add: Collectible_checkPlayerCollision_def split: option.splits)
  from a show "reports (fst (item_run c ks)) = 0" by (simp add: item_run_collected)
  from a show "collected (snd (item_run c ks))" by (simp add: item_run_collected)
next
  show "reports (fst (item_run c ks)) \<le> 1" by (rule item_run_reports)
qed

theorem collectible_reports_once_witness:
  "\<not> collected coin \<and> checkCollision coin (new_Player 110 440) \<and>
   Collectible_checkPlayerCollision coin (Some (new_Player 110 440))
     = (Some \<lparr>collection_type = ''coin'', collection_value = 10,
               collection_effect = ''score''\<rparr>, coin_taken) \<and>
   collected coin_taken \<and>
   Collectible_checkPlayerCollision coin_taken (Some (new_Player 110 440)) = (None, coin_taken) \<and>
   reports (fst (item_run coin_taken
      [ItemCheck (Some (new_Player 110 440)), ItemCollect, ItemCheck (Some (new_Player 112 441))]))
     = 0"
proof -
  have c: "\<not> collected coin" "collectibleType coin = ''coin''" "item_value coin = 10"
    "getCollectionEffect coin = ''score''"
    by (simp_all add: coin_def new_Collectible_def updateTypeProperties_def Collectible_types_def
          getCollectionEffect_def)
  have o: "checkCollision coin (new_Player 110 440)"
    by (simp add: coin_def new_Collectible_def updateTypeProperties_def Collectible_types_def
          new_Player_def checkCollision_def)
  have t: "collected coin_taken" by (simp add: coin_taken_def)
  from collectible_reports_once [of coin "new_Player 110 440" None "[]"] c o
  have 1: "Collectible_checkPlayerCollision coin (Some (new_Player 110 440))
     = (Some \<lparr>collection_type = ''coin'', collection_value = 10,
               collection_effect = ''score''\<rparr>, coin_taken)"
    by (simp add: coin_taken_def)
  from collectible_reports_once [of coin_taken "new_Player 110 440" "Some (new_Player 110 440)"
      "[ItemCheck (Some (new_Player 110 440)), ItemCollect,
        ItemCheck (Some (new_Player 112 441))]"] t
  have 2: "Collectible_checkPlayerCollision coin_taken (Some (new_Player 110 440))
             = (None, coin_taken)"
    "reports (fst (item_run coin_taken
      [ItemCheck (Some (new_Player 110 440)), ItemCollect,
       ItemCheck (Some (new_Player 112 441))])) = 0"
    by blast+
  from c(1) o 1 t 2 show ?thesis by blast
qed

lemma updateCrumbleParticles_fields [simp]:
  "isCrumbling (updateCrumbleParticles dt pf) = isCrumbling pf"
  "pos_x (updateCrumbleParticles dt pf) = pos_x pf"
  "pos_y (updateCrumbleParticles dt pf) = pos_y pf"
  "width (updateCrumbleParticles dt pf) = width pf"
  "height (updateCrumbleParticles dt pf) = height pf"
  by (simp_all add: updateCrumbleParticles_def)

lemma createCrumbleParticles_fields [simp]:
  "isCrumbling (createCrumbleParticles rnd pf) = isCrumbling pf"
  "pos_x (createCrumbleParticles rnd pf) = pos_x pf"
  "pos_y (createCrumbleParticles rnd pf) = pos_y pf"
  "width (createCrumbleParticles rnd pf) = width pf"
  "height (createCrumbleParticles rnd pf) = height pf"
  by (simp_all add: createCrumbleParticles_def)

lemma Player_collide_rect:
  assumes "pos_x pf = pos_x pf'" and "pos_y pf = pos_y pf'" and "width pf = width pf'"
    and "height pf = height pf'"
  shows "Player_collide p pf = Player_collide p pf'"
  unfolding Player_collide_def checkCollision_def by (simp only: assms)

lemma foldl_Player_collide_isCrumbling:
  "foldl Player_collide p (map (\<lambda>pf. pf\<lparr>isCrumbling := b\<rparr>) pfs) = foldl Player_collide p pfs"
proof (induction pfs arbitrary: p)
  case Nil
  show ?case by simp
next
  case (Cons pf pfs)
  have "Player_collide p (pf\<lparr>isCrumbling := b\<rparr>) = Player_collide p pf"
    by (rule Player_collide_rect) simp_all
  with Cons show ?case by simp
qed

lemma after_collisions_fields [simp]:
  "isGrounded (Player_updateAnimation dt p) = isGrounded p"
  "pos_y (Player_updateAnimation dt p) = pos_y p"
  "velocityY (Player_updateAnimation dt p) = velocityY p"
  "isGrounded (updateInvulnerability now p) = isGrounded p"
  "pos_y (updateInvulnerability now p) = pos_y p"
  "velocityY (updateInvulnerability now p) = velocityY p"
  "isGrounded (constrainToWorld now p) = isGrounded p"
  "pos_y (constrainToWorld now p) = pos_y p"
  "velocityY (constrainToWorld now p) = velocityY p"
  by (simp_all add: Player_updateAnimation_def updateInvulnerability_def constrainToWorld_def
        Player_takeDamage_def Let_def)

lemma Player_update_landing:
  "isGrounded (Player_update now dt pfs p)
     = isGrounded (Player_handlePlatformCollisions (Player_updatePhysics (handleInput p)) pfs)"
  "pos_y (Player_update now dt pfs p)
     = pos_y (Player_handlePlatformCollisions (Player_updatePhysics (handleInput p)) pfs)"
  "velocityY (Player_update now dt pfs p)
     = velocityY (Player_handlePlatformCollisions (Player_updatePhysics (handleInput p)) pfs)"
  by (simp_all add: Player_update_def)

lemma Player_collide_separates: "\<not> checkCollision (Player_collide p pf) pf"
proof (cases "checkCollision p pf")
  case False
  then show ?thesis by (simp add: Player_collide_def)
next
  case True
  show ?thesis
    by (simp add: Player_collide_def True Let_def) (simp add: checkCollision_def)
qed

lemma width_kept [simp]:
  "width (handleInput p) = width p"
  "width (Player_updatePhysics p) = width p"
  "width (Player_collide p pf) = width p"
  "width (Player_updateAnimation dt p) = width p"
  "width (updateInvulnerability now p) = width p"
  "width (constrainToWorld now p) = width p"
  "width (respawn now p) = width p"
  "width (setInput k b p) = width p"
  by (simp_all add: handleInput_def jump_def Player_updatePhysics_def Player_collide_def
        Player_updateAnimation_def updateInvulnerability_def constrainToWorld_def
        Player_takeDamage_def respawn_def setInput_def Let_def)

lemma width_updatePlayerInput [simp]: "width (updatePlayerInput f p) = width p"
  by (simp add: updatePlayerInput_def)

lemma place_kept [simp]:
  "pos_x (Player_updateAnimation dt p) = pos_x p"
  "height (Player_updateAnimation dt p) = height p"
  "pos_x (updateInvulnerability now p) = pos_x p"
  "height (updateInvulnerability now p) = height p"
  "height (constrainToWorld now p) = height p"
  "pos_x (constrainToWorld now p) = clamp (pos_x p) 0 (2000 - width p)"
  by (simp_all add: Player_updateAnimation_def updateInvulnerability_def constrainToWorld_def
        Player_takeDamage_def Let_def)

lemma constrain_separates:
  "\<not> checkCollision q pf \<Longrightarrow> inside_world q pf \<Longrightarrow> \<not> checkCollision (constrainToWorld now q) pf"
  by (auto simp: checkCollision_def inside_world_def clamp_def)

lemma Player_update_single:
  "Player_update now dt [pf] p =
     constrainToWorld now (updateInvulnerability now (Player_updateAnimation dt
       (Player_collide ((Player_updatePhysics (handleInput p))\<lparr>isGrounded := False\<rparr>) pf)))"
  by (simp add: Player_update_def Player_handlePlatformCollisions_def)

lemma update_separates:
  assumes "inside_world p pf"
  shows "\<not> checkCollision (Player_update now dt [pf] p) pf"
proof -
  let ?q = "Player_collide ((Player_updatePhysics (handleInput p))\<lparr>isGrounded := False\<rparr>) pf"
  let ?r = "updateInvulnerability now (Player_updateAnimation dt ?q)"
  have "\<not> checkCollision ?q pf" by (rule Player_collide_separates)
  then have "\<not> checkCollision ?r pf" by (simp add: checkCollision_def)
  moreover from assms have "inside_world ?r pf" by (simp add: inside_world_def)
  ultimately show ?thesis unfolding Player_update_single by (rule constrain_separates)
qed

lemma checkCollision_isPlayerOn [simp]:
  "checkCollision p (pf\<lparr>isPlayerOn := b\<rparr>) = checkCollision p pf"
  by (simp add: checkCollision_def)

lemma crumbling_untouched:
  "platformType pf = ''crumbling'' \<Longrightarrow> \<not> checkCollision p pf \<Longrightarrow>
   Platform_update rnd dt (Some p) pf = updateCrumbleParticles dt (pf\<lparr>isPlayerOn := False\<rparr>)"
  by (simp add: Platform_update_def updateCrumbling_def Let_def)

lemma untouched_refl: "untouched pf pf"
  by (simp add: untouched_def same_place_def)

lemma untouched_step:
  "untouched q pf \<Longrightarrow> untouched (updateCrumbleParticles dt (q\<lparr>isPlayerOn := False\<rparr>)) pf"
  by (simp add: untouched_def same_place_def updateCrumbleParticles_def)

lemma playing_frame_single:
  assumes "platformType q = ''crumbling''" and "inside_world p q"
  shows "snd (playing_frame (p, [q]) f)
           = [updateCrumbleParticles (f_deltaTime f) (q\<lparr>isPlayerOn := False\<rparr>)] \<and>
         width (fst (playing_frame (p, [q]) f)) = width p"
proof -
  let ?p1 = "updatePlayerInput f p"
  from assms(2) have "inside_world ?p1 q" by (simp add: inside_world_def)
  then have "\<not> checkCollision (Player_update (f_now f) (f_deltaTime f) [q] ?p1) q"
    by (rule update_separates)
  with assms(1) show ?thesis
    by (simp add: playing_frame_def Level_update_platforms_def crumbling_untouched Let_def
          Player_update_single)
qed

lemma playing_frames_single:
  "untouched q pf \<Longrightarrow> platformType pf = ''crumbling'' \<Longrightarrow> inside_world p pf \<Longrightarrow>
   \<exists>q'. snd (playing_frames fs (p, [q])) = [q'] \<and> untouched q' pf"
proof (induction fs arbitrary: p q)
  case Nil
  then show ?case by (simp add: playing_frames_def)
next
  case (Cons f fs)
  from Cons.prems have q: "platformType q = ''crumbling''" "inside_world p q"
    by (simp_all add: untouched_def same_place_def inside_world_def)
  let ?q = "updateCrumbleParticles (f_deltaTime f) (q\<lparr>isPlayerOn := False\<rparr>)"
  from playing_frame_single [OF q, of f]
  obtain p' where s: "playing_frame (p, [q]) f = (p', [?q])" and w: "width p' = width p"
    by (cases "playing_frame (p, [q]) f") simp
  from Cons.prems(1) have u: "untouched ?q pf" by (rule untouched_step)
  from Cons.prems(3) w have i: "inside_world p' pf" by (simp add: inside_world_def)
  from Cons.IH [OF u Cons.prems(2) i] show ?case by (simp add: playing_frames_def s)
qed

lemma at_rest_kept [simp]:
  "at_rest (Player_updateAnimation dt p) = at_rest p"
  "at_rest (updateInvulnerability now p) = at_rest p"
  by (simp_all add: at_rest_def Player_updateAnimation_def updateInvulnerability_def Let_def)

lemma at_rest_constrained: "at_rest p \<Longrightarrow> constrainToWorld now p = p"
  by (simp add: at_rest_def constrainToWorld_def clamp_def)

lemma idle_input:
  "handleInput (updatePlayerInput (idle_frame t) p)
     = p\<lparr>key_left := False, key_right := False, key_jumpPressed := False, key_jump := False\<rparr>"
  by (simp add: handleInput_def updatePlayerInput_def setInput_def idle_frame_def)

lemma rest_collide:
  assumes "at_rest p"
  shows "at_rest (Player_collide ((Player_updatePhysics (handleInput
            (updatePlayerInput (idle_frame t) p)))\<lparr>isGrounded := False\<rparr>) crumbling_platform) \<and>
         isGrounded (Player_collide ((Player_updatePhysics (handleInput
            (updatePlayerInput (idle_frame t) p)))\<lparr>isGrounded := False\<rparr>) crumbling_platform)
           = (\<not> isGrounded p)"
proof (cases "isGrounded p")
  case True
  with assms show ?thesis
    unfolding idle_input
    by (simp add: at_rest_def Player_updatePhysics_def clamp_def Let_def Player_collide_def
          checkCollision_def crumbling_platform_def new_Platform_def)
next
  case False
  with assms show ?thesis
    unfolding idle_input
    by (simp add: at_rest_def Player_updatePhysics_def clamp_def Let_def Player_collide_def
          checkCollision_def crumbling_platform_def new_Platform_def)
qed

lemma rest_update:
  assumes "at_rest p"
  shows "at_rest (Player_update now dt [crumbling_platform] (updatePlayerInput (idle_frame t) p))"
    and "isGrounded (Player_update now dt [crumbling_platform] (updatePlayerInput (idle_frame t) p))
           = (\<not> isGrounded p)"
proof -
  let ?q = "Player_collide ((Player_updatePhysics (handleInput
            (updatePlayerInput (idle_frame t) p)))\<lparr>isGrounded := False\<rparr>) crumbling_platform"
  let ?r = "updateInvulnerability now (Player_updateAnimation dt ?q)"
  from rest_collide [OF assms, of t] have q: "at_rest ?q" "isGrounded ?q = (\<not> isGrounded p)"
    by simp_all
  then have r: "at_rest ?r" "isGrounded ?r = (\<not> isGrounded p)" by simp_all
  from r(1) have "constrainToWorld now ?r = ?r" by (rule at_rest_constrained)
  with r show "at_rest (Player_update now dt [crumbling_platform]
      (updatePlayerInput (idle_frame t) p))"
    and "isGrounded (Player_update now dt [crumbling_platform]
      (updatePlayerInput (idle_frame t) p)) = (\<not> isGrounded p)"
    by (simp_all add: Player_update_single)
qed

lemma crumbling_platform_fixed:
  "updateCrumbleParticles dt (crumbling_platform\<lparr>isPlayerOn := False\<rparr>) = crumbling_platform"
  by (simp add: updateCrumbleParticles_def crumbling_platform_def new_Platform_def)

lemma rest_frame:
  assumes "at_rest p"
  shows "\<exists>p'. playing_frame (p, [crumbling_platform]) (idle_frame t) = (p', [crumbling_platform]) \<and>
              at_rest p' \<and> isGrounded p' = (\<not> isGrounded p)"
proof -
  let ?p2 = "Player_update (fst t) (snd t) [crumbling_platform] (updatePlayerInput (idle_frame t) p)"
  from rest_update [OF assms, of "fst t" "snd t" t]
  have r: "at_rest ?p2" "isGrounded ?p2 = (\<not> isGrounded p)" by simp_all
  from r(1) have alive: "\<not> isDead ?p2" by (simp add: at_rest_def isDead_def)
  from assms have "inside_world p crumbling_platform"
    by (simp add: at_rest_def inside_world_def crumbling_platform_def new_Platform_def)
  from playing_frame_single [OF _ this, of "idle_frame t"]
  have pl: "snd (playing_frame (p, [crumbling_platform]) (idle_frame t)) = [crumbling_platform]"
    by (simp add: crumbling_platform_fixed idle_frame_def)
       (simp add: crumbling_platform_def new_Platform_def)
  have "fst (playing_frame (p, [crumbling_platform]) (idle_frame t)) = ?p2"
    using alive by (simp add: playing_frame_def Let_def idle_frame_def)
  with pl r show ?thesis by (simp add: prod_eq_iff)
qed

lemma rest_frames:
  "at_rest p \<Longrightarrow>
   \<exists>p'. playing_frames (map idle_frame ts) (p, [crumbling_platform]) = (p', [crumbling_platform]) \<and>
        at_rest p' \<and> isGrounded p' = (isGrounded p \<noteq> odd (length ts))"
proof (induction ts arbitrary: p)
  case Nil
  then show ?case by (simp add: playing_frames_def)
next
  case (Cons t ts)
  from rest_frame [OF Cons.prems, of t] obtain p1 where
    f: "playing_frame (p, [crumbling_platform]) (idle_frame t) = (p1, [crumbling_platform])"
    and r: "at_rest p1" and g: "isGrounded p1 = (\<not> isGrounded p)" by blast
  from Cons.IH [OF r] obtain p' where
    "playing_frames (map idle_frame ts) (p1, [crumbling_platform]) = (p', [crumbling_platform])"
    "at_rest p'" "isGrounded p' = (isGrounded p1 \<noteq> odd (length ts))" by blast
  with f g show ?case by (auto simp: playing_frames_def)
qed

lemma new_Player_at_rest: "at_rest (new_Player 660 302) \<and> \<not> isGrounded (new_Player 660 302)"
  by (simp add: at_rest_def new_Player_def)

text \<open>
  Claim C1 says that a crumbling platform on which the player has stood for 1000 ms
  sets its \<open>isCrumbling\<close> flag and from then on takes no part in the player's collision
  resolution. The code has the timer, the flag and \<open>providesCollision\<close>, and reaches
  none of it in play. \<open>Level.update\<close> updates the platform after \<open>Player.update\<close> has
  resolved the player out of it, to contact at most, and \<open>checkCollision\<close> is strict:
  \<open>updateCrumbling\<close> never sees the player on the platform. So in a level of one
  crumbling platform that lies inside the bounds the player is clamped to, no sequence
  of playing frames, whatever the keys and the times, changes the platform's place, its
  timer or its flag. In particular a player standing on the crumbling platform of level 3
  with no key pressed is still at rest on it after any number of frames (landed by
  \<open>handlePlatformCollisions\<close> in every odd frame), the platform exactly as it was
  built. And were the flag set, \<open>handlePlatformCollisions\<close> would not read it: its
  result is the same whatever the flags of the platforms are.
\<close>

theorem standing_player_never_crumbles_the_platform:
  "(platformType pf = ''crumbling'' \<and> inside_world p pf \<longrightarrow>
      (\<exists>q. snd (playing_frames fs (p, [pf])) = [q] \<and> untouched q pf \<and>
           providesCollision q = providesCollision pf)) \<and>
   \<not> isCrumbling crumbling_platform \<and> providesCollision crumbling_platform \<and>
   snd (playing_frames (map idle_frame ts) (new_Player 660 302, [crumbling_platform]))
     = [crumbling_platform] \<and>
   at_rest (fst (playing_frames (map idle_frame ts) (new_Player 660 302, [crumbling_platform]))) \<and>
   isGrounded (fst (playing_frames (map idle_frame ts)
                      (new_Player 660 302, [crumbling_platform]))) = odd (length ts) \<and>
   Player_handlePlatformCollisions p' (map (\<lambda>pf. pf\<lparr>isCrumbling := b\<rparr>) pfs)
     = Player_handlePlatformCollisions p' pfs"
proof (intro conjI impI)
  assume a: "platformType pf = ''crumbling'' \<and> inside_world p pf"
  from playing_frames_single [OF untouched_refl, of pf p fs] a
  obtain q where q: "snd (playing_frames fs (p, [pf])) = [q]" "untouched q pf" by blast
  from q(2) have "providesCollision q = providesCollision pf"
    by (simp add: untouched_def providesCollision_def)
  with q show "\<exists>q. snd (playing_frames fs (p, [pf])) = [q] \<and> untouched q pf \<and>
           providesCollision q = providesCollision pf" by blast
next
  show "\<not> isCrumbling crumbling_platform"
    by (simp add: crumbling_platform_def new_Platform_def)
  then show "providesCollision crumbling_platform" by (simp add: providesCollision_def)
next
  from new_Player_at_rest have r: "at_rest (new_Player 660 302)"
    and g: "\<not> isGrounded (new_Player 660 302)" by simp_all
  from rest_frames [OF r, of ts] g obtain p1 where
    s: "playing_frames (map idle_frame ts) (new_Player 660 302, [crumbling_platform])
          = (p1, [crumbling_platform])"
    and "at_rest p1" "isGrounded p1 = odd (length ts)" by auto
  then show "snd (playing_frames (map idle_frame ts) (new_Player 660 302, [crumbling_platform]))
     = [crumbling_platform]"
    and "at_rest (fst (playing_frames (map idle_frame ts)
           (new_Player 660 302, [crumbling_platform])))"
    and "isGrounded (fst (playing_frames (map idle_frame ts)
                      (new_Player 660 302, [crumbling_platform]))) = odd (length ts)"
    by simp_all
next
  show "Player_handlePlatformCollisions p' (map (\<lambda>pf. pf\<lparr>isCrumbling := b\<rparr>) pfs)
     = Player_handlePlatformCollisions p' pfs"
    by (simp add: Player_handlePlatformCollisions_def foldl_Player_collide_isCrumbling)
qed

theorem standing_player_never_crumbles_the_platform_witness:
  "platformType crumbling_platform = ''crumbling'' \<and>
   inside_world (new_Player 660 302) crumbling_platform \<and>
   pos_y (new_Player 660 302) + height (new_Player 660 302) = pos_y crumbling_platform \<and>
   length (map (\<lambda>k. (50 * real k, 50 :: real)) [1..<22]) = 21 \<and>
   (\<exists>q. snd (playing_frames (map idle_frame (map (\<lambda>k. (50 * real k, 50)) [1..<22]))
              (new_Player 660 302, [crumbling_platform])) = [q] \<and>
        untouched q crumbling_platform \<and> providesCollision q) \<and>
   snd (playing_frames (map idle_frame (map (\<lambda>k. (50 * real k, 50)) [1..<22]))
          (new_Player 660 302, [crumbling_platform])) = [crumbling_platform] \<and>
   pos_y (fst (playing_frames (map idle_frame (map (\<lambda>k. (50 * real k, 50)) [1..<22]))
                 (new_Player 660 302, [crumbling_platform]))) = 302 \<and>
   isGrounded (fst (playing_frames (map idle_frame (map (\<lambda>k. (50 * real k, 50)) [1..<22]))
                      (new_Player 660 302, [crumbling_platform])))"
proof -
  have h: "platformType crumbling_platform = ''crumbling''"
    "inside_world (new_Player 660 302) crumbling_platform"
    "pos_y (new_Player 660 302) + height (new_Player 660 302) = pos_y crumbling_platform"
    by (simp_all add: crumbling_platform_def new_Platform_def new_Player_def inside_world_def)
  let ?ts = "map (\<lambda>k. (50 * real k, 50 :: real)) [1..<22]"
  let ?s = "playing_frames (map idle_frame ?ts) (new_Player 660 302, [crumbling_platform])"
  have l: "length ?ts = 21" by simp
  note t = standing_player_never_crumbles_the_platform
    [of crumbling_platform "new_Player 660 302" "map idle_frame ?ts" ?ts]
  from t have c: "providesCollision crumbling_platform" by blast
  from t h(1,2) obtain q where "snd ?s = [q]" "untouched q crumbling_platform"
    "providesCollision q = providesCollision crumbling_platform" by blast
  with c have e: "\<exists>q. snd ?s = [q] \<and> untouched q crumbling_platform \<and> providesCollision q"
    by blast
  from t have u: "snd ?s = [crumbling_platform]" by blast
  from t have "at_rest (fst ?s)" by blast
  then have y: "pos_y (fst ?s) = 302" by (simp only: at_rest_def)
  from t have "isGrounded (fst ?s) = odd (length ?ts)" by blast
  then have g: "isGrounded (fst ?s)" by (simp only: l) simp
  from h l e u y g show ?thesis by blast
qed

lemma Player_collide_velocityY:
  "velocityY (Player_collide p pf) = velocityY p \<or> velocityY (Player_collide p pf) = 0"
  by (simp add: Player_collide_def Let_def)

lemma foldl_Player_collide_velocityY:
  "velocityY (foldl Player_collide p pfs) = velocityY p \<or>
   velocityY (foldl Player_collide p pfs) = 0"
proof (induction pfs arbitrary: p)
  case Nil
  show ?case by simp
next
  case (Cons pf pfs)
  from Cons [of "Player_collide p pf"] Player_collide_velocityY [of p pf]
  show ?case by auto
qed

lemma faller_falls:
  "Player_updatePhysics (handleInput faller) = faller\<lparr>velocityY := 15, pos_y := 255\<rparr>"
  by (simp add: handleInput_def Player_updatePhysics_def clamp_def Let_def faller_def
        new_Player_def)

lemma faller_lands:
  "Player_handlePlatformCollisions (faller\<lparr>velocityY := 15, pos_y := 255\<rparr>) [bouncy_platform]
     = faller\<lparr>velocityY := 0, pos_y := 252, isGrounded := True, canDoubleJump := False,
             hasDoubleJumped := False\<rparr>"
  by (simp add: Player_handlePlatformCollisions_def Player_collide_def checkCollision_def
        faller_def bouncy_platform_def new_Player_def new_Platform_def Let_def)

lemma faller_would_bounce:
  "Platform_handlePlayerCollision bouncy_platform (faller\<lparr>velocityY := 15, pos_y := 255\<rparr>)
     = (Some ''top'', triggerBounce bouncy_platform,
        faller\<lparr>velocityY := - 20, pos_y := 252, isGrounded := True, canDoubleJump := False,
               hasDoubleJumped := False\<rparr>)"
  by (simp add: Platform_handlePlayerCollision_def checkCollision_def triggerBounce_def
        faller_def bouncy_platform_def new_Player_def new_Platform_def Let_def)

text \<open>
  Claim C2 says that landing on a bouncy platform sets the player's vertical velocity to
  \<open>- bounceForce\<close>. \<open>Platform.handlePlayerCollision\<close> does that, but nothing calls
  it: the playing update resolves platforms in \<open>Player.handlePlatformCollisions\<close>,
  which does not read the platform's type. The theorem evaluates the code: a player
  falling at the maximal speed onto a bouncy platform is landed by
  \<open>handlePlatformCollisions\<close>, alone and within \<open>Player.update\<close>, with vertical
  velocity 0 (grounded, the double-jump flags reset), where
  \<open>Platform.handlePlayerCollision\<close> on the same input gives -20; and no call of
  \<open>handlePlatformCollisions\<close> gives a vertical velocity other than the one it was given
  or 0.
\<close>

theorem bouncy_landing_stops_the_player:
  "platformType bouncy_platform = ''bouncy'' \<and> bounceForce bouncy_platform = 20 \<and>
   Player_updatePhysics (handleInput faller) = faller\<lparr>velocityY := 15, pos_y := 255\<rparr> \<and>
   Player_handlePlatformCollisions (faller\<lparr>velocityY := 15, pos_y := 255\<rparr>) [bouncy_platform]
     = faller\<lparr>velocityY := 0, pos_y := 252, isGrounded := True, canDoubleJump := False,
             hasDoubleJumped := False\<rparr> \<and>
   velocityY (Player_update now 16 [bouncy_platform] faller) = 0 \<and>
   isGrounded (Player_update now 16 [bouncy_platform] faller) \<and>
   Platform_handlePlayerCollision bouncy_platform (faller\<lparr>velocityY := 15, pos_y := 255\<rparr>)
     = (Some ''top'', triggerBounce bouncy_platform,
        faller\<lparr>velocityY := - 20, pos_y := 252, isGrounded := True, canDoubleJump := False,
               hasDoubleJumped := False\<rparr>) \<and>
   (velocityY (Player_handlePlatformCollisions p pfs) = velocityY p \<or>
    velocityY (Player_handlePlatformCollisions p pfs) = 0)"
proof -
  have "velocityY (Player_handlePlatformCollisions p pfs) = velocityY p \<or>
        velocityY (Player_handlePlatformCollisions p pfs) = 0"
    using foldl_Player_collide_velocityY [of "p\<lparr>isGrounded := False\<rparr>" pfs]
    by (simp add: Player_handlePlatformCollisions_def)
  moreover have "platformType bouncy_platform = ''bouncy''" "bounceForce bouncy_platform = 20"
    by (simp_all add: bouncy_platform_def new_Platform_def)
  ultimately show ?thesis
    by (simp add: Player_update_landing faller_falls faller_lands faller_would_bounce)
qed

end
